theory Spec2Isabelle
  imports Main "HOL-Library.Sublist" "HOL-Library.Multiset" "HOL-Library.Char_ord"
    "HOL-Library.List_Lexorder"
begin

section \<open>Strings and numbers of the Go standard library\<close>

text \<open>
  A Go \<open>string\<close> is a sequence of bytes; it is modelled as \<open>string\<close> (a list of
  \<open>char\<close>, one per byte), so \<open>length\<close> is Go's \<open>len\<close>.
\<close>

text \<open>\<open>strings.Contains(s, substr)\<close>: \<open>substr\<close> occurs in \<open>s\<close> as a contiguous run.\<close>

fun Contains :: "string \<Rightarrow> string \<Rightarrow> bool" where
  "Contains [] sub = (sub = [])"
| "Contains (c # s) sub = (prefix sub (c # s) \<or> Contains s sub)"

text \<open>\<open>strings.Join(elems, sep)\<close>.\<close>

fun Join :: "string list \<Rightarrow> string \<Rightarrow> string" where
  "Join [] sep = []"
| "Join [x] sep = x"
| "Join (x # y # ys) sep = x @ sep @ Join (y # ys) sep"

text \<open>
  \<open>strings.ToLower\<close> on the ASCII letters. (The router only compares the result with
  \<open>"true"\<close> and \<open>"yes"\<close>, and no letter outside ASCII lowers to a letter of these words.)
\<close>

definition lower_char :: "char \<Rightarrow> char" where
  "lower_char c =
     (let n = (of_char c :: nat) in if 65 \<le> n \<and> n \<le> 90 then char_of (n + 32) else c)"

definition ToLower :: "string \<Rightarrow> string" where
  "ToLower s = map lower_char s"

text \<open>
  \<open>strconv.Atoi\<close>: an optional sign, then one or more decimal digits and nothing else;
  a value outside the 64-bit \<open>int\<close> is a range error. \<open>None\<close> is the error.
\<close>

definition is_digit :: "char \<Rightarrow> bool" where
  "is_digit c = (let n = (of_char c :: nat) in 48 \<le> n \<and> n \<le> 57)"

definition digit_val :: "char \<Rightarrow> int" where
  "digit_val c = int (of_char c) - 48"

fun digits_value :: "int \<Rightarrow> string \<Rightarrow> int" where
  "digits_value acc [] = acc"
| "digits_value acc (c # cs) = digits_value (acc * 10 + digit_val c) cs"

definition parse_digits :: "string \<Rightarrow> int option" where
  "parse_digits ds =
     (if ds = [] \<or> \<not> list_all is_digit ds then None else Some (digits_value 0 ds))"

definition in_int64 :: "int \<Rightarrow> int option" where
  "in_int64 n = (if - (2 ^ 63) \<le> n \<and> n \<le> 2 ^ 63 - 1 then Some n else None)"

definition Atoi :: "string \<Rightarrow> int option" where
  "Atoi s =
     (case s of
        [] \<Rightarrow> None
      | c # cs \<Rightarrow>
          if c = CHR ''-'' then
            (case parse_digits cs of None \<Rightarrow> None | Some n \<Rightarrow> in_int64 (- n))
          else if c = CHR ''+'' then
            (case parse_digits cs of None \<Rightarrow> None | Some n \<Rightarrow> in_int64 n)
          else
            (case parse_digits s of None \<Rightarrow> None | Some n \<Rightarrow> in_int64 n))"

text \<open>
  The glob library (\<open>github.com/gobwas/glob\<close>) is outside the repository: \<open>glob.Compile\<close>
  is a parameter \<open>glob\<close> of the router, \<open>None\<close> for a pattern that does not compile and
  otherwise the matcher \<open>g.Match\<close>.
\<close>

type_synonym glob_compile = "string \<Rightarrow> (string \<Rightarrow> bool) option"

section \<open>Smart routing: data model (\<open>internal/smart_routing/type.go\<close>)\<close>

text \<open>\<open>SmartOpPosition\<close> and \<open>SmartOpOperation\<close> are Go string types.\<close>

definition PositionModel :: string where "PositionModel = ''model''"
definition PositionThinking :: string where "PositionThinking = ''thinking''"
definition PositionSystem :: string where "PositionSystem = ''system''"
definition PositionUser :: string where "PositionUser = ''user''"
definition PositionToolUse :: string where "PositionToolUse = ''tool_use''"
definition PositionToken :: string where "PositionToken = ''token''"

definition OpModelContains :: string where "OpModelContains = ''contains''"
definition OpModelGlob :: string where "OpModelGlob = ''glob''"
definition OpModelEquals :: string where "OpModelEquals = ''equals''"
definition OpThinkingEnabled :: string where "OpThinkingEnabled = ''enabled''"
definition OpThinkingDisabled :: string where "OpThinkingDisabled = ''disabled''"
definition OpSystemAnyContains :: string where "OpSystemAnyContains = ''any_contains''"
definition OpSystemRegex :: string where "OpSystemRegex = ''regex''"
definition OpUserAnyContains :: string where "OpUserAnyContains = ''any_contains''"
definition OpUserContains :: string where "OpUserContains = ''contains''"
definition OpUserRegex :: string where "OpUserRegex = ''regex''"
definition OpUserRequestType :: string where "OpUserRequestType = ''type''"
definition OpToolUseIs :: string where "OpToolUseIs = ''is''"
definition OpToolUseContains :: string where "OpToolUseContains = ''contains''"
definition OpTokenGe :: string where "OpTokenGe = ''ge''"
definition OpTokenGt :: string where "OpTokenGt = ''gt''"
definition OpTokenLe :: string where "OpTokenLe = ''le''"
definition OpTokenLt :: string where "OpTokenLt = ''lt''"

record SmartOpMeta =
  meta_Description :: string
  meta_Type :: string

record SmartOp =
  Position :: string
  Operation :: string
  Value :: string
  Meta :: SmartOpMeta

text \<open>\<open>loadbalance.Service\<close>, with the fields the router and its tests use.\<close>

record Service =
  Provider :: string
  Model :: string
  Weight :: int
  Active :: bool

record SmartRouting =
  Description :: string
  Ops :: "SmartOp list"
  Services :: "Service list"

text \<open>\<open>RequestContext\<close> (extracted per request).\<close>

record RequestContext =
  ctx_Model :: string
  ThinkingEnabled :: bool
  SystemMessages :: "string list"
  UserMessages :: "string list"
  ToolUses :: "string list"
  LatestContentType :: string
  EstimatedTokens :: int

definition IsValid :: "string \<Rightarrow> bool" where
  "IsValid p \<longleftrightarrow>
     p = PositionModel \<or> p = PositionThinking \<or> p = PositionSystem \<or> p = PositionUser
     \<or> p = PositionToolUse \<or> p = PositionToken"

definition GetLatestUserMessage :: "RequestContext \<Rightarrow> string" where
  "GetLatestUserMessage rc =
     (if length (UserMessages rc) = 0 then []
      else UserMessages rc ! (length (UserMessages rc) - 1))"

definition CombineMessages :: "string list \<Rightarrow> string" where
  "CombineMessages messages = Join messages ''\<newline>''"

section \<open>Smart routing: the router (\<open>internal/smart_routing/routing.go\<close>)\<close>

record Router =
  rules :: "SmartRouting list"

definition evaluateModelOp :: "glob_compile \<Rightarrow> RequestContext \<Rightarrow> SmartOp \<Rightarrow> bool" where
  "evaluateModelOp glob ctx op =
     (let model = ctx_Model ctx in
      if Operation op = OpModelContains then Contains model (Value op)
      else if Operation op = OpModelGlob then
        (case glob (Value op) of None \<Rightarrow> False | Some g \<Rightarrow> g model)
      else if Operation op = OpModelEquals then model = Value op
      else False)"

definition asserts_state :: "string \<Rightarrow> bool" where
  "asserts_state v \<longleftrightarrow>
     v = [] \<or> ToLower v = ''true'' \<or> ToLower v = ''yes'' \<or> v = ''1''"

definition evaluateThinkingOp :: "RequestContext \<Rightarrow> SmartOp \<Rightarrow> bool" where
  "evaluateThinkingOp ctx op =
     (let enabled = ThinkingEnabled ctx in
      if Operation op = OpThinkingEnabled then
        (if asserts_state (Value op) then enabled else False)
      else if Operation op = OpThinkingDisabled then
        (if asserts_state (Value op) then \<not> enabled else False)
      else False)"

text \<open>
  \<open>stringsMatch(text, pattern, useRegex)\<close>; its error result is always \<open>nil\<close>, so only
  the boolean is kept.
\<close>

definition stringsMatch :: "glob_compile \<Rightarrow> string \<Rightarrow> string \<Rightarrow> bool \<Rightarrow> bool" where
  "stringsMatch glob text pattern useRegex =
     (if \<not> useRegex then Contains text pattern
      else (case glob pattern of None \<Rightarrow> Contains text pattern | Some g \<Rightarrow> g text))"

definition evaluateSystemOp :: "glob_compile \<Rightarrow> RequestContext \<Rightarrow> SmartOp \<Rightarrow> bool" where
  "evaluateSystemOp glob ctx op =
     (let combined = CombineMessages (SystemMessages ctx) in
      if Operation op = OpSystemAnyContains then Contains combined (Value op)
      else if Operation op = OpSystemRegex then stringsMatch glob combined (Value op) True
      else False)"

definition evaluateUserOp :: "glob_compile \<Rightarrow> RequestContext \<Rightarrow> SmartOp \<Rightarrow> bool" where
  "evaluateUserOp glob ctx op =
     (let combined = CombineMessages (UserMessages ctx) in
      if Operation op = OpUserAnyContains then Contains combined (Value op)
      else if Operation op = OpUserContains then
        (let latest = GetLatestUserMessage ctx in Contains latest (Value op))
      else if Operation op = OpUserRegex then stringsMatch glob combined (Value op) True
      else if Operation op = OpUserRequestType then LatestContentType ctx = Value op
      else False)"

text \<open>The loop of \<open>evaluateToolUseOp\<close> over \<open>ctx.ToolUses\<close>.\<close>

fun toolUseLoop :: "SmartOp \<Rightarrow> string list \<Rightarrow> bool" where
  "toolUseLoop op [] = False"
| "toolUseLoop op (toolUse # rest) =
     (if Operation op = OpToolUseIs then
        (if toolUse = Value op then True else toolUseLoop op rest)
      else if Operation op = OpToolUseContains then
        (if Contains toolUse (Value op) then True else toolUseLoop op rest)
      else toolUseLoop op rest)"

definition evaluateToolUseOp :: "RequestContext \<Rightarrow> SmartOp \<Rightarrow> bool" where
  "evaluateToolUseOp ctx op = toolUseLoop op (ToolUses ctx)"

definition evaluateTokenOp :: "RequestContext \<Rightarrow> SmartOp \<Rightarrow> bool" where
  "evaluateTokenOp ctx op =
     (let tokens = EstimatedTokens ctx in
      case Atoi (Value op) of
        None \<Rightarrow> False
      | Some target \<Rightarrow>
          if Operation op = OpTokenGe then tokens \<ge> target
          else if Operation op = OpTokenGt then tokens > target
          else if Operation op = OpTokenLe then tokens \<le> target
          else if Operation op = OpTokenLt then tokens < target
          else False)"

definition evaluateOp :: "glob_compile \<Rightarrow> RequestContext \<Rightarrow> SmartOp \<Rightarrow> bool" where
  "evaluateOp glob ctx op =
     (if Position op = PositionModel then evaluateModelOp glob ctx op
      else if Position op = PositionThinking then evaluateThinkingOp ctx op
      else if Position op = PositionSystem then evaluateSystemOp glob ctx op
      else if Position op = PositionUser then evaluateUserOp glob ctx op
      else if Position op = PositionToolUse then evaluateToolUseOp ctx op
      else if Position op = PositionToken then evaluateTokenOp ctx op
      else False)"

text \<open>\<open>evaluateRule\<close>: the loop over \<open>rule.Ops\<close>, leaving at the first Op that fails.\<close>

fun evaluateOps :: "glob_compile \<Rightarrow> RequestContext \<Rightarrow> SmartOp list \<Rightarrow> bool" where
  "evaluateOps glob ctx [] = True"
| "evaluateOps glob ctx (op # ops) =
     (if \<not> evaluateOp glob ctx op then False else evaluateOps glob ctx ops)"

definition evaluateRule :: "glob_compile \<Rightarrow> RequestContext \<Rightarrow> SmartRouting \<Rightarrow> bool" where
  "evaluateRule glob ctx rule = evaluateOps glob ctx (Ops rule)"

text \<open>
  \<open>EvaluateRequest\<close>: the loop over \<open>r.rules\<close>, returning at the first rule that
  matches; Go's \<open>nil\<close> slice is the empty list.
\<close>

fun evaluateRules ::
  "glob_compile \<Rightarrow> RequestContext \<Rightarrow> SmartRouting list \<Rightarrow> Service list \<times> bool" where
  "evaluateRules glob ctx [] = ([], False)"
| "evaluateRules glob ctx (rule # rest) =
     (if evaluateRule glob ctx rule then (Services rule, True)
      else evaluateRules glob ctx rest)"

definition EvaluateRequest ::
  "glob_compile \<Rightarrow> Router \<Rightarrow> RequestContext \<Rightarrow> Service list \<times> bool" where
  "EvaluateRequest glob r ctx = evaluateRules glob ctx (rules r)"

text \<open>\<open>EstimateTokens\<close>: \<open>len(text) / 4\<close>, the length in bytes.\<close>

definition EstimateTokens :: "string \<Rightarrow> int" where
  "EstimateTokens text = (if text = [] then 0 else int (length text) div 4)"

subsection \<open>Validation\<close>

definition validOps :: "(string \<times> string list) list" where
  "validOps =
     [(PositionModel, [OpModelContains, OpModelGlob, OpModelEquals]),
      (PositionThinking, [OpThinkingEnabled, OpThinkingDisabled]),
      (PositionSystem, [OpSystemAnyContains, OpSystemRegex]),
      (PositionUser, [OpUserAnyContains, OpUserContains, OpUserRegex, OpUserRequestType]),
      (PositionToolUse, [OpToolUseIs, OpToolUseContains]),
      (PositionToken, [OpTokenGe, OpTokenGt, OpTokenLe, OpTokenLt])]"

definition isValidOperationForPosition :: "string \<Rightarrow> string \<Rightarrow> bool" where
  "isValidOperationForPosition pos op =
     (case map_of validOps pos of
        None \<Rightarrow> False
      | Some ops \<Rightarrow> op \<in> set ops)"

datatype op_error =
    InvalidPosition string
  | OperationEmpty
  | OperationNotValid string string

datatype rule_error =
    DescriptionEmpty
  | OpsEmpty
  | OpError nat op_error
  | ServicesEmpty
  | ProviderEmpty nat
  | ModelEmpty nat

datatype router_error = RuleError nat rule_error

text \<open>The validators return Go's \<open>error\<close>: \<open>None\<close> is \<open>nil\<close>.\<close>

definition ValidateSmartOp :: "SmartOp \<Rightarrow> op_error option" where
  "ValidateSmartOp op =
     (if \<not> IsValid (Position op) then Some (InvalidPosition (Position op))
      else if Operation op = [] then Some OperationEmpty
      else if \<not> isValidOperationForPosition (Position op) (Operation op)
        then Some (OperationNotValid (Operation op) (Position op))
      else None)"

fun validateOps :: "nat \<Rightarrow> SmartOp list \<Rightarrow> rule_error option" where
  "validateOps i [] = None"
| "validateOps i (op # ops) =
     (case ValidateSmartOp op of
        Some err \<Rightarrow> Some (OpError i err)
      | None \<Rightarrow> validateOps (Suc i) ops)"

fun validateServices :: "nat \<Rightarrow> Service list \<Rightarrow> rule_error option" where
  "validateServices i [] = None"
| "validateServices i (svc # svcs) =
     (if Provider svc = [] then Some (ProviderEmpty i)
      else if Model svc = [] then Some (ModelEmpty i)
      else validateServices (Suc i) svcs)"

definition ValidateSmartRouting :: "SmartRouting \<Rightarrow> rule_error option" where
  "ValidateSmartRouting rule =
     (if Description rule = [] then Some DescriptionEmpty
      else if length (Ops rule) = 0 then Some OpsEmpty
      else case validateOps 0 (Ops rule) of
        Some err \<Rightarrow> Some err
      | None \<Rightarrow>
          if length (Services rule) = 0 then Some ServicesEmpty
          else validateServices 0 (Services rule))"

fun validateRules :: "nat \<Rightarrow> SmartRouting list \<Rightarrow> router_error option" where
  "validateRules i [] = None"
| "validateRules i (rule # rest) =
     (case ValidateSmartRouting rule of
        Some err \<Rightarrow> Some (RuleError i err)
      | None \<Rightarrow> validateRules (Suc i) rest)"

definition NewRouter :: "SmartRouting list \<Rightarrow> router_error + Router" where
  "NewRouter rs =
     (case validateRules 0 rs of
        Some err \<Rightarrow> Inl err
      | None \<Rightarrow> Inr \<lparr>rules = rs\<rparr>)"

section \<open>The request parser (\<open>internal/smart_routing\<close>, context extraction)\<close>

text \<open>
  The parsed body, as \<open>fastjson\<close> hands it out: a tree of typed values. A string value
  holds its unescaped bytes, an object its members in the order of the text. The parser
  itself (\<open>fastjson.Parser.ParseBytes\<close>) and the serialiser (\<open>Value.MarshalTo\<close>) are
  outside the repository and are parameters \<open>parse\<close> (\<open>None\<close> for a body that is not
  valid JSON) and \<open>marshal\<close>.
\<close>

datatype json =
    JNull
  | JBool bool
  | JNumber string
  | JString string
  | JArray "json list"
  | JObject "(string \<times> json) list"

type_synonym json_parser = "string \<Rightarrow> json option"
type_synonym json_marshal = "json \<Rightarrow> string"

text \<open>\<open>Object.Get(key)\<close>: the first member with that key, or \<open>nil\<close>.\<close>

definition object_Get :: "(string \<times> json) list \<Rightarrow> string \<Rightarrow> json option" where
  "object_Get kvs key = map_of kvs key"

text \<open>
  \<open>Value.Get(key)\<close>: a member of an object, the element of an array at a decimal index,
  \<open>nil\<close> on any other value.
\<close>

definition value_Get :: "json \<Rightarrow> string \<Rightarrow> json option" where
  "value_Get v key =
     (case v of
        JObject kvs \<Rightarrow> object_Get kvs key
      | JArray a \<Rightarrow>
          (case Atoi key of
             None \<Rightarrow> None
           | Some n \<Rightarrow> if n < 0 \<or> n \<ge> int (length a) then None else Some (a ! nat n))
      | _ \<Rightarrow> None)"

definition value_Object :: "json \<Rightarrow> (string \<times> json) list option" where
  "value_Object v = (case v of JObject kvs \<Rightarrow> Some kvs | _ \<Rightarrow> None)"

definition value_Array :: "json \<Rightarrow> json list option" where
  "value_Array v = (case v of JArray a \<Rightarrow> Some a | _ \<Rightarrow> None)"

definition value_StringBytes :: "json \<Rightarrow> string option" where
  "value_StringBytes v = (case v of JString s \<Rightarrow> Some s | _ \<Rightarrow> None)"

text \<open>\<open>Value.GetStringBytes(key)\<close>: \<open>nil\<close> (the empty byte slice) unless a string is there.\<close>

definition GetStringBytes :: "json \<Rightarrow> string \<Rightarrow> string" where
  "GetStringBytes v key =
     (case value_Get v key of Some (JString s) \<Rightarrow> s | _ \<Rightarrow> [])"

text \<open>\<open>Value.GetArray(key)\<close>: \<open>nil\<close> (no elements) unless an array is there.\<close>

definition GetArray :: "json \<Rightarrow> string \<Rightarrow> json list" where
  "GetArray v key =
     (case value_Get v key of Some (JArray a) \<Rightarrow> a | _ \<Rightarrow> [])"

text \<open>
  One round of the loop of \<open>extractContentString\<close> over the blocks of an array content:
  \<open>parts\<close> with what the block adds.
\<close>

definition contentPart :: "string list \<Rightarrow> json \<Rightarrow> string list" where
  "contentPart parts item =
     (case value_Object item of
        None \<Rightarrow> parts
      | Some obj \<Rightarrow>
          (case object_Get obj ''type'' of
             None \<Rightarrow> parts
           | Some typeVal \<Rightarrow>
               (case value_StringBytes typeVal of
                  None \<Rightarrow> parts
                | Some typeStr \<Rightarrow>
                    if typeStr = ''text'' then
                      (case object_Get obj ''text'' of
                         None \<Rightarrow> parts
                       | Some textVal \<Rightarrow>
                           (case value_StringBytes textVal of
                              None \<Rightarrow> parts
                            | Some textBytes \<Rightarrow> parts @ [textBytes]))
                    else if typeStr = ''image'' then parts @ [''[image]'']
                    else parts)))"

definition extractContentString :: "json_marshal \<Rightarrow> json \<Rightarrow> string" where
  "extractContentString marshal contentVal =
     (case contentVal of
        JString bytes \<Rightarrow> bytes
      | JArray array \<Rightarrow> Join (foldl contentPart [] array) ''\<newline>''
      | _ \<Rightarrow> marshal contentVal)"

text \<open>The loop of \<open>hasImageContent\<close>, leaving at the first image block.\<close>

fun hasImageLoop :: "json list \<Rightarrow> bool" where
  "hasImageLoop [] = False"
| "hasImageLoop (item # rest) =
     (case value_Object item of
        None \<Rightarrow> hasImageLoop rest
      | Some obj \<Rightarrow>
          (case object_Get obj ''type'' of
             None \<Rightarrow> hasImageLoop rest
           | Some typeVal \<Rightarrow>
               (case value_StringBytes typeVal of
                  None \<Rightarrow> hasImageLoop rest
                | Some typeBytes \<Rightarrow>
                    if typeBytes = ''image'' then True else hasImageLoop rest)))"

definition hasImageContent :: "json \<Rightarrow> bool" where
  "hasImageContent contentVal =
     (case contentVal of JArray array \<Rightarrow> hasImageLoop array | _ \<Rightarrow> False)"

text \<open>The name under \<open>"function"\<close> of a tool call or of a tool definition, if it is a string.\<close>

definition functionName :: "(string \<times> json) list \<Rightarrow> string list \<Rightarrow> string list" where
  "functionName obj tools =
     (case object_Get obj ''function'' of
        None \<Rightarrow> tools
      | Some funcObj \<Rightarrow>
          (case value_Get funcObj ''name'' of
             None \<Rightarrow> tools
           | Some nameVal \<Rightarrow>
               (case value_StringBytes nameVal of
                  None \<Rightarrow> tools
                | Some nameBytes \<Rightarrow> tools @ [nameBytes])))"

definition toolCallName :: "string list \<Rightarrow> json \<Rightarrow> string list" where
  "toolCallName tools toolCallVal =
     (case value_Object toolCallVal of
        None \<Rightarrow> tools
      | Some toolCallObj \<Rightarrow> functionName toolCallObj tools)"

definition messageToolCalls :: "string list \<Rightarrow> json \<Rightarrow> string list" where
  "messageToolCalls tools msgVal =
     (case value_Object msgVal of
        None \<Rightarrow> tools
      | Some msgObj \<Rightarrow>
          (case object_Get msgObj ''tool_calls'' of
             None \<Rightarrow> tools
           | Some toolCallsVal \<Rightarrow>
               (case value_Array toolCallsVal of
                  None \<Rightarrow> tools
                | Some toolCallsArray \<Rightarrow> foldl toolCallName tools toolCallsArray)))"

definition toolDefinitionOpenAI :: "string list \<Rightarrow> json \<Rightarrow> string list" where
  "toolDefinitionOpenAI tools toolVal =
     (case value_Object toolVal of
        None \<Rightarrow> tools
      | Some toolObj \<Rightarrow> functionName toolObj tools)"

definition extractToolUsesOpenAI :: "json \<Rightarrow> string list" where
  "extractToolUsesOpenAI v =
     (let tools = foldl messageToolCalls [] (GetArray v ''messages'')
      in foldl toolDefinitionOpenAI tools (GetArray v ''tools''))"

definition toolUseBlockName :: "string list \<Rightarrow> json \<Rightarrow> string list" where
  "toolUseBlockName tools item =
     (case value_Object item of
        None \<Rightarrow> tools
      | Some obj \<Rightarrow>
          (case object_Get obj ''type'' of
             None \<Rightarrow> tools
           | Some typeVal \<Rightarrow>
               (case value_StringBytes typeVal of
                  None \<Rightarrow> tools
                | Some typeBytes \<Rightarrow>
                    if typeBytes = ''tool_use'' then
                      (case object_Get obj ''name'' of
                         None \<Rightarrow> tools
                       | Some nameVal \<Rightarrow>
                           (case value_StringBytes nameVal of
                              None \<Rightarrow> tools
                            | Some nameBytes \<Rightarrow> tools @ [nameBytes]))
                    else tools)))"

definition extractToolUsesAnthropicContent :: "json \<Rightarrow> string list" where
  "extractToolUsesAnthropicContent contentVal =
     (case contentVal of JArray array \<Rightarrow> foldl toolUseBlockName [] array | _ \<Rightarrow> [])"

text \<open>The user branch shared by both extractors: the text, then the image marker.\<close>

definition addUserContent :: "RequestContext \<Rightarrow> string \<Rightarrow> json \<Rightarrow> RequestContext" where
  "addUserContent ctx contentStr contentVal =
     (let ctx1 = (if contentStr \<noteq> [] then ctx\<lparr>UserMessages := UserMessages ctx @ [contentStr]\<rparr>
                  else ctx)
      in if hasImageContent contentVal then ctx1\<lparr>LatestContentType := ''image''\<rparr> else ctx1)"

text \<open>One round of the loop over \<open>messages\<close> in \<open>ExtractContextFromOpenAIRequest\<close>.\<close>

definition openaiMessage :: "json_marshal \<Rightarrow> RequestContext \<Rightarrow> json \<Rightarrow> RequestContext" where
  "openaiMessage marshal ctx msgVal =
     (case value_Object msgVal of
        None \<Rightarrow> ctx
      | Some msgObj \<Rightarrow>
          (case object_Get msgObj ''role'' of
             None \<Rightarrow> ctx
           | Some roleVal \<Rightarrow>
               (case value_StringBytes roleVal of
                  None \<Rightarrow> ctx
                | Some role \<Rightarrow>
                    (case object_Get msgObj ''content'' of
                       None \<Rightarrow> ctx
                     | Some contentVal \<Rightarrow>
                         (let contentStr = extractContentString marshal contentVal in
                          if role = ''system'' then
                            (if contentStr \<noteq> []
                             then ctx\<lparr>SystemMessages := SystemMessages ctx @ [contentStr]\<rparr>
                             else ctx)
                          else if role = ''user'' then addUserContent ctx contentStr contentVal
                          else ctx)))))"

definition emptyContext :: RequestContext where
  "emptyContext =
     \<lparr>ctx_Model = [], ThinkingEnabled = False, SystemMessages = [], UserMessages = [],
      ToolUses = [], LatestContentType = [], EstimatedTokens = 0\<rparr>"

text \<open>The last step of both extractors: the estimate over all extracted text.\<close>

definition withEstimate :: "RequestContext \<Rightarrow> RequestContext" where
  "withEstimate ctx =
     (let allContent = Join (SystemMessages ctx @ UserMessages ctx) ''\<newline>''
      in ctx\<lparr>EstimatedTokens := EstimateTokens allContent\<rparr>)"

datatype extract_error = FailedToParseJSON

definition ExtractContextFromOpenAIRequest ::
  "json_parser \<Rightarrow> json_marshal \<Rightarrow> string \<Rightarrow> extract_error + RequestContext" where
  "ExtractContextFromOpenAIRequest parse marshal body =
     (case parse body of
        None \<Rightarrow> Inl FailedToParseJSON
      | Some v \<Rightarrow>
          (let ctx1 = emptyContext\<lparr>ctx_Model := GetStringBytes v ''model''\<rparr>;
               ctx2 = foldl (openaiMessage marshal) ctx1 (GetArray v ''messages'');
               ctx3 = ctx2\<lparr>ToolUses := extractToolUsesOpenAI v\<rparr>
           in Inr (withEstimate ctx3)))"

text \<open>One round of the loop over \<open>messages\<close> in \<open>ExtractContextFromAnthropicRequest\<close>.\<close>

definition anthropicMessage :: "json_marshal \<Rightarrow> RequestContext \<Rightarrow> json \<Rightarrow> RequestContext" where
  "anthropicMessage marshal ctx msgVal =
     (case value_Object msgVal of
        None \<Rightarrow> ctx
      | Some msgObj \<Rightarrow>
          (case object_Get msgObj ''role'' of
             None \<Rightarrow> ctx
           | Some roleVal \<Rightarrow>
               (case value_StringBytes roleVal of
                  None \<Rightarrow> ctx
                | Some role \<Rightarrow>
                    (case object_Get msgObj ''content'' of
                       None \<Rightarrow> ctx
                     | Some contentVal \<Rightarrow>
                         (let contentStr = extractContentString marshal contentVal;
                              toolUses = extractToolUsesAnthropicContent contentVal;
                              ctx1 = (if role = ''user''
                                      then addUserContent ctx contentStr contentVal else ctx)
                          in ctx1\<lparr>ToolUses := ToolUses ctx1 @ toolUses\<rparr>)))))"

definition toolDefinitionAnthropic :: "RequestContext \<Rightarrow> json \<Rightarrow> RequestContext" where
  "toolDefinitionAnthropic ctx toolVal =
     (case value_Object toolVal of
        None \<Rightarrow> ctx
      | Some toolObj \<Rightarrow>
          (case object_Get toolObj ''name'' of
             None \<Rightarrow> ctx
           | Some nameVal \<Rightarrow>
               (case value_StringBytes nameVal of
                  None \<Rightarrow> ctx
                | Some nameBytes \<Rightarrow> ctx\<lparr>ToolUses := ToolUses ctx @ [nameBytes]\<rparr>)))"

definition ExtractContextFromAnthropicRequest ::
  "json_parser \<Rightarrow> json_marshal \<Rightarrow> string \<Rightarrow> extract_error + RequestContext" where
  "ExtractContextFromAnthropicRequest parse marshal body =
     (case parse body of
        None \<Rightarrow> Inl FailedToParseJSON
      | Some v \<Rightarrow>
          (let ctx1 = emptyContext\<lparr>ctx_Model := GetStringBytes v ''model''\<rparr>;
               systemBytes = GetStringBytes v ''system'';
               ctx2 = (if length systemBytes > 0
                       then ctx1\<lparr>SystemMessages := SystemMessages ctx1 @ [systemBytes]\<rparr>
                       else ctx1);
               ctx3 = (case value_Get v ''thinking'' of
                         Some (JObject kvs) \<Rightarrow> ctx2\<lparr>ThinkingEnabled := True\<rparr>
                       | _ \<Rightarrow> ctx2);
               ctx4 = foldl (anthropicMessage marshal) ctx3 (GetArray v ''messages'');
               ctx5 = foldl toolDefinitionAnthropic ctx4 (GetArray v ''tools'')
           in Inr (withEstimate ctx5)))"

text \<open>
  \<open>EvaluateAndSelectServices\<close>, the entry point of smart routing; a \<open>nil\<close> router is
  \<open>None\<close>. The result has no error component.
\<close>

definition EvaluateAndSelectServices ::
  "glob_compile \<Rightarrow> json_parser \<Rightarrow> json_marshal \<Rightarrow> Router option \<Rightarrow> string \<Rightarrow> string
     \<Rightarrow> Service list \<times> bool" where
  "EvaluateAndSelectServices glob parse marshal router scenario body =
     (case router of
        None \<Rightarrow> ([], False)
      | Some r \<Rightarrow>
          (case (if scenario = ''openai''
                   then ExtractContextFromOpenAIRequest parse marshal body
                 else if scenario = ''anthropic'' \<or> scenario = ''claude_code''
                   then ExtractContextFromAnthropicRequest parse marshal body
                 else ExtractContextFromOpenAIRequest parse marshal body) of
             Inl err \<Rightarrow> ([], False)
           | Inr ctx \<Rightarrow> EvaluateRequest glob r ctx))"

section \<open>The protocol adapter (package \<open>adaptor\<close>)\<close>

subsection \<open>OpenAI request to Anthropic request\<close>

text \<open>
  \<open>ConvertOpenAIToAnthropicRequest\<close> reads each message through the generic map \<open>m\<close> that
  \<open>json.Marshal\<close> and \<open>json.Unmarshal\<close> give. A field of \<open>m\<close> is \<open>None\<close> when the key is
  absent or its value does not have the type the source asserts (\<open>.(string)\<close>, a map, a
  slice); the one-result form of a type assertion panics there, the two-result form
  yields the zero value.
\<close>

record FunctionFields =
  fn_name :: "string option"
  fn_arguments :: "string option"

record ToolCallFields =
  call_id :: "string option"
  call_function :: "FunctionFields option"

record MessageFields =
  m_content :: "string option"
  m_tool_calls :: "ToolCallFields list option"
  m_tool_call_id :: "string option"

text \<open>
  A message of the request: \<open>GetRole\<close> is \<open>nil\<close> for an empty union; \<open>marshalled\<close> is
  \<open>None\<close> when the round trip into \<open>m\<close> fails.
\<close>

record OpenAIMessageParam =
  GetRole :: "string option"
  marshalled :: "MessageFields option"

record ChatCompletionNewParams =
  req_Model :: string
  req_Messages :: "OpenAIMessageParam list"
  req_MaxTokens :: int

datatype ContentBlockParam =
    NewTextBlock string
  | NewToolUseBlock string "json option" string
  | NewToolResultBlock string string bool

datatype MessageParam =
    NewAssistantMessage "ContentBlockParam list"
  | NewUserMessage "ContentBlockParam list"

fun message_role :: "MessageParam \<Rightarrow> string" where
  "message_role (NewAssistantMessage blocks) = ''assistant''"
| "message_role (NewUserMessage blocks) = ''user''"

text \<open>\<open>anthropic.MessageNewParams\<close>: \<open>params_System\<close> is the \<open>system\<close> field, a list of text blocks.\<close>

record MessageNewParams =
  params_Model :: string
  params_Messages :: "MessageParam list"
  params_MaxTokens :: int
  params_System :: "string list"

datatype convert_error = TypeAssertionPanic

text \<open>The loop over \<open>tool_calls\<close> of an assistant message.\<close>

fun toolUseBlocks ::
  "json_parser \<Rightarrow> ContentBlockParam list \<Rightarrow> ToolCallFields list
     \<Rightarrow> convert_error + ContentBlockParam list" where
  "toolUseBlocks unmarshal blocks [] = Inr blocks"
| "toolUseBlocks unmarshal blocks (call # calls) =
     (case call_function call of
        None \<Rightarrow> Inl TypeAssertionPanic
      | Some fn \<Rightarrow>
          (let argsInput = (case fn_arguments fn of
                              None \<Rightarrow> None
                            | Some argsStr \<Rightarrow> unmarshal argsStr)
           in case call_id call of
                None \<Rightarrow> Inl TypeAssertionPanic
              | Some callID \<Rightarrow>
                  (case fn_name fn of
                     None \<Rightarrow> Inl TypeAssertionPanic
                   | Some name \<Rightarrow>
                       toolUseBlocks unmarshal (blocks @ [NewToolUseBlock callID argsInput name])
                         calls)))"

text \<open>
  One round of the loop over \<open>req.Messages\<close>: the state is \<open>messages\<close> and
  \<open>systemParts\<close>.
\<close>

definition convertMessage ::
  "json_parser \<Rightarrow> MessageParam list \<times> string list \<Rightarrow> OpenAIMessageParam
     \<Rightarrow> convert_error + MessageParam list \<times> string list" where
  "convertMessage unmarshal st msg =
     (let messages = fst st; systemParts = snd st in
      case GetRole msg of
        None \<Rightarrow> Inr st
      | Some role \<Rightarrow>
          (case marshalled msg of
             None \<Rightarrow> Inr st
           | Some m \<Rightarrow>
               (let content = (case m_content m of None \<Rightarrow> [] | Some c \<Rightarrow> c) in
                if role = ''system'' then
                  (if content \<noteq> [] then Inr (messages, systemParts @ [content]) else Inr st)
                else
                  (let blocks = (if content \<noteq> [] then [NewTextBlock content] else []) in
                   if role = ''assistant'' then
                     (case (case m_tool_calls m of
                              None \<Rightarrow> Inr blocks
                            | Some toolCalls \<Rightarrow> toolUseBlocks unmarshal blocks toolCalls) of
                        Inl err \<Rightarrow> Inl err
                      | Inr blocks' \<Rightarrow>
                          if length blocks' > 0
                          then Inr (messages @ [NewAssistantMessage blocks'], systemParts)
                          else Inr st)
                   else if role = ''tool'' then
                     (let toolID = (case m_tool_call_id m of None \<Rightarrow> [] | Some t \<Rightarrow> t) in
                      Inr (messages @ [NewUserMessage (blocks @ [NewToolResultBlock toolID content False])],
                           systemParts))
                   else if role = ''user'' \<and> length blocks > 0 then
                     Inr (messages @ [NewUserMessage blocks], systemParts)
                   else Inr st))))"

fun convertMessages ::
  "json_parser \<Rightarrow> MessageParam list \<times> string list \<Rightarrow> OpenAIMessageParam list
     \<Rightarrow> convert_error + MessageParam list \<times> string list" where
  "convertMessages unmarshal st [] = Inr st"
| "convertMessages unmarshal st (msg # msgs) =
     (case convertMessage unmarshal st msg of
        Inl err \<Rightarrow> Inl err
      | Inr st' \<Rightarrow> convertMessages unmarshal st' msgs)"

text \<open>
  \<open>ConvertOpenAIToAnthropicRequest\<close>. The result is built from \<open>Model\<close>, \<open>Messages\<close> and
  \<open>MaxTokens\<close> only: \<open>systemParts\<close> is collected by the loop and not read afterwards, so
  the \<open>system\<close> field keeps its zero value.
\<close>

definition ConvertOpenAIToAnthropicRequest ::
  "json_parser \<Rightarrow> ChatCompletionNewParams \<Rightarrow> convert_error + MessageNewParams" where
  "ConvertOpenAIToAnthropicRequest unmarshal req =
     (case convertMessages unmarshal ([], []) (req_Messages req) of
        Inl err \<Rightarrow> Inl err
      | Inr st \<Rightarrow>
          Inr \<lparr>params_Model = req_Model req, params_Messages = fst st,
               params_MaxTokens = req_MaxTokens req, params_System = []\<rparr>)"

subsection \<open>OpenAI response to Anthropic response\<close>

record ToolCall =
  tc_ID :: string
  tc_Name :: string
  tc_Arguments :: string

record Choice =
  choice_Content :: string
  choice_ToolCalls :: "ToolCall list"
  choice_FinishReason :: string

record ChatCompletion =
  resp_Choices :: "Choice list"
  resp_PromptTokens :: int
  resp_CompletionTokens :: int

text \<open>A content block of the response; a tool-use block has its \<open>input\<close> only when set.\<close>

datatype ResponseBlock =
    TextContent string
  | ToolUseContent string string "json option"

text \<open>The response as \<open>responseJSON\<close> holds it.\<close>

record AnthropicMessage =
  msg_id :: string
  msg_type :: string
  msg_role :: string
  msg_content :: "ResponseBlock list"
  msg_model :: string
  msg_stop_reason :: string
  msg_stop_sequence :: string
  msg_input_tokens :: int
  msg_output_tokens :: int

definition toolUseBlock :: "json_parser \<Rightarrow> ToolCall \<Rightarrow> ResponseBlock" where
  "toolUseBlock unmarshal toolCall =
     ToolUseContent (tc_ID toolCall) (tc_Name toolCall)
       (if tc_Arguments toolCall \<noteq> [] then unmarshal (tc_Arguments toolCall) else None)"

text \<open>
  \<open>ConvertOpenAIToAnthropic\<close>: only the first choice is read (the loop body ends in
  \<open>break\<close>); \<open>messageID\<close> is \<open>"msg_"\<close> and the clock's seconds.
\<close>

definition ConvertOpenAIToAnthropic ::
  "json_parser \<Rightarrow> string \<Rightarrow> ChatCompletion \<Rightarrow> string \<Rightarrow> AnthropicMessage" where
  "ConvertOpenAIToAnthropic unmarshal messageID openaiResp model =
     (let responseJSON =
            \<lparr>msg_id = messageID, msg_type = ''message'', msg_role = ''assistant'',
             msg_content = [], msg_model = model, msg_stop_reason = ''end_turn'',
             msg_stop_sequence = [], msg_input_tokens = resp_PromptTokens openaiResp,
             msg_output_tokens = resp_CompletionTokens openaiResp\<rparr>
      in case resp_Choices openaiResp of
           [] \<Rightarrow> responseJSON
         | choice # others \<Rightarrow>
             (let contentBlocks1 =
                    (if choice_Content choice \<noteq> [] then [TextContent (choice_Content choice)]
                     else []);
                  contentBlocks =
                    (if length (choice_ToolCalls choice) > 0
                     then contentBlocks1 @ map (toolUseBlock unmarshal) (choice_ToolCalls choice)
                     else contentBlocks1);
                  stop = (if length (choice_ToolCalls choice) > 0
                             \<and> choice_FinishReason choice = ''tool_calls''
                          then ''tool_use'' else msg_stop_reason responseJSON)
              in responseJSON\<lparr>msg_stop_reason := stop, msg_content := contentBlocks\<rparr>))"

text \<open>
  \<open>mapOpenAIFinishReasonToAnthropicBeta\<close> of the beta stream translator. The constants of
  the two SDKs it names are \<open>"stop"\<close>, \<open>"length"\<close>, \<open>"content_filter"\<close> and \<open>"end_turn"\<close>,
  \<open>"max_tokens"\<close>, \<open>"tool_use"\<close>, \<open>"refusal"\<close>.
\<close>

text \<open>
  Modelled from the spec: the constant \<open>openaiFinishReasonToolCalls\<close>, declared outside the
  given sources; the spec's table maps the finish reason \<open>tool_calls\<close>.
\<close>

definition openaiFinishReasonToolCalls :: string where
  "openaiFinishReasonToolCalls = ''tool_calls''"

definition mapOpenAIFinishReasonToAnthropicBeta :: "string \<Rightarrow> string" where
  "mapOpenAIFinishReasonToAnthropicBeta finishReason =
     (if finishReason = ''stop'' then ''end_turn''
      else if finishReason = ''length'' then ''max_tokens''
      else if finishReason = openaiFinishReasonToolCalls then ''tool_use''
      else if finishReason = ''content_filter'' then ''refusal''
      else ''end_turn'')"

section \<open>The streaming translator (\<open>HandleOpenAIToAnthropicStreamResponse\<close>)\<close>

text \<open>The parts of an OpenAI chunk that the handler reads.\<close>

record ToolCallDelta =
  tcd_Index :: int
  tcd_ID :: string
  tcd_Name :: string
  tcd_Arguments :: string

record ChunkChoice =
  delta_Content :: string
  delta_ToolCalls :: "ToolCallDelta list"
  FinishReason :: string

record Chunk =
  Choices :: "ChunkChoice list"
  usage_PromptTokens :: int
  usage_CompletionTokens :: int

text \<open>The events written to the client, in the order of the writes.\<close>

datatype block_start = TextBlock | ToolUseBlock string string

datatype block_delta = TextDelta string | InputJSONDelta string

datatype event =
    MessageStart string
  | ContentBlockStart int block_start
  | ContentBlockDelta int block_delta
  | ContentBlockStop int
  | MessageDelta string int
  | MessageStop
  | ErrorEvent string

record pendingToolCall =
  ptc_id :: string
  ptc_name :: string
  ptc_input :: string

text \<open>
  The handler's variables. \<open>pendingToolCalls\<close> is a Go map from the tool-call index; it
  is held as the list of its entries in the order they were added, each key once.
\<close>

record StreamState =
  sentTextContent :: bool
  contentIndex :: int
  outputTokens :: int
  pendingToolCalls :: "(int \<times> pendingToolCall) list"

definition initialState :: StreamState where
  "initialState =
     \<lparr>sentTextContent = False, contentIndex = 0, outputTokens = 0, pendingToolCalls = []\<rparr>"

text \<open>
  \<open>for i := range pendingToolCalls\<close> visits every key of the map exactly once, in an
  order that Go leaves unspecified. The order is drawn from a seed of the run: each number
  of the seed picks, among the keys not yet visited, the one to visit next; when the seed
  is used up the keys left are visited in the order they were added. Whatever the seed,
  the visit is a rearrangement of the keys, and every rearrangement comes from a seed.
\<close>

type_synonym range_seed = "nat list"

function rangeKeys :: "range_seed \<Rightarrow> int list \<Rightarrow> int list" where
  "rangeKeys seed [] = []"
| "rangeKeys [] (k # ks) = k # ks"
| "rangeKeys (n # seed) (k # ks) =
     (let key = (k # ks) ! (n mod length (k # ks))
      in key # rangeKeys seed (remove1 key (k # ks)))"
  by pat_completeness auto
termination
proof (relation "measure (\<lambda>(seed, ks). length ks)")
  fix n :: nat and seed :: "nat list" and k :: int and ks :: "int list" and key :: int
  assume "key = (k # ks) ! (n mod length (k # ks))"
  then have "key \<in> set (k # ks)"
    by (metis length_greater_0_conv list.distinct(1) mod_less_divisor nth_mem)
  then have "length (remove1 key (k # ks)) < length (k # ks)"
    by (simp only: length_remove1 if_True) simp
  then show "((seed, remove1 key (k # ks)), n # seed, k # ks)
      \<in> measure (\<lambda>(seed, ks). length ks)"
    by simp
qed simp

definition addInput :: "int \<Rightarrow> string \<Rightarrow> (int \<times> pendingToolCall) list
    \<Rightarrow> (int \<times> pendingToolCall) list" where
  "addInput index arguments pending =
     map (\<lambda>(k, v). if k = index then (k, v\<lparr>ptc_input := ptc_input v @ arguments\<rparr>) else (k, v))
       pending"

text \<open>One round of the loop over \<open>delta.ToolCalls\<close>.\<close>

definition handleToolCall :: "StreamState \<Rightarrow> ToolCallDelta \<Rightarrow> event list \<times> StreamState" where
  "handleToolCall st toolCall =
     (let index = tcd_Index toolCall;
          opened = (map_of (pendingToolCalls st) index = None);
          st1 = (if opened then
                   st\<lparr>pendingToolCalls := pendingToolCalls st @
                         [(index, \<lparr>ptc_id = tcd_ID toolCall, ptc_name = tcd_Name toolCall,
                                   ptc_input = []\<rparr>)],
                      contentIndex := (if index \<ge> contentIndex st then index + 1
                                       else contentIndex st)\<rparr>
                 else st);
          evs1 = (if opened
                  then [ContentBlockStart index (ToolUseBlock (tcd_ID toolCall) (tcd_Name toolCall))]
                  else [])
      in if tcd_Arguments toolCall \<noteq> [] then
           (evs1 @ [ContentBlockDelta index (InputJSONDelta (tcd_Arguments toolCall))],
            st1\<lparr>pendingToolCalls := addInput index (tcd_Arguments toolCall) (pendingToolCalls st1)\<rparr>)
         else (evs1, st1))"

fun handleToolCalls :: "StreamState \<Rightarrow> ToolCallDelta list \<Rightarrow> event list \<times> StreamState" where
  "handleToolCalls st [] = ([], st)"
| "handleToolCalls st (toolCall # rest) =
     (let (evs, st1) = handleToolCall st toolCall;
          (evs', st2) = handleToolCalls st1 rest
      in (evs @ evs', st2))"

text \<open>The content delta of a chunk's first choice.\<close>

definition handleContent :: "StreamState \<Rightarrow> string \<Rightarrow> event list \<times> StreamState" where
  "handleContent st content =
     (if content \<noteq> [] then
        ((if \<not> sentTextContent st \<and> length (pendingToolCalls st) = 0
          then [ContentBlockStart (contentIndex st) TextBlock] else [])
         @ [ContentBlockDelta (contentIndex st) (TextDelta content)],
         st\<lparr>sentTextContent := True\<rparr>)
      else ([], st))"

text \<open>The mapping of the finish reason in this handler.\<close>

definition stopReasonOf :: "string \<Rightarrow> string" where
  "stopReasonOf finishReason =
     (if finishReason = ''stop'' then ''end_turn''
      else if finishReason = ''length'' then ''max_tokens''
      else if finishReason = ''tool_calls'' then ''tool_use''
      else if finishReason = ''content_filter'' then ''content_filter''
      else ''end_turn'')"

text \<open>What the handler writes once the finish reason is present, before it returns.\<close>

definition finishEvents :: "range_seed \<Rightarrow> StreamState \<Rightarrow> string \<Rightarrow> event list" where
  "finishEvents seed st finishReason =
     (if sentTextContent st then [ContentBlockStop 0] else [])
     @ map ContentBlockStop (rangeKeys seed (map fst (pendingToolCalls st)))
     @ [MessageDelta (stopReasonOf finishReason) (outputTokens st), MessageStop]"

text \<open>
  The body of the loop for a chunk with a choice, up to the test of the finish reason: the
  content delta, the tool-call deltas and the usage.
\<close>

definition handleChoice :: "StreamState \<Rightarrow> Chunk \<Rightarrow> ChunkChoice \<Rightarrow> event list \<times> StreamState" where
  "handleChoice st chunk choice =
     (let (evs1, st1) = handleContent st (delta_Content choice);
          (evs2, st2) = (if length (delta_ToolCalls choice) > 0
                         then handleToolCalls st1 (delta_ToolCalls choice)
                         else ([], st1));
          st3 = (if usage_CompletionTokens chunk > 0
                 then st2\<lparr>outputTokens := usage_CompletionTokens chunk\<rparr> else st2)
      in (evs1 @ evs2, st3))"

text \<open>A chunk without choices only updates the usage (and the loop continues).\<close>

definition usageOnly :: "StreamState \<Rightarrow> Chunk \<Rightarrow> StreamState" where
  "usageOnly st chunk =
     (if usage_PromptTokens chunk > 0 \<or> usage_CompletionTokens chunk > 0
      then st\<lparr>outputTokens := usage_CompletionTokens chunk\<rparr> else st)"

text \<open>
  The body of the loop for one chunk: the events written, the new state, and whether the
  handler has returned.
\<close>

definition processChunk :: "range_seed \<Rightarrow> StreamState \<Rightarrow> Chunk \<Rightarrow> event list \<times> StreamState \<times> bool" where
  "processChunk seed st chunk =
     (case Choices chunk of
        [] \<Rightarrow> ([], usageOnly st chunk, False)
      | choice # others \<Rightarrow>
          (case handleChoice st chunk choice of
             (evs, st3) \<Rightarrow>
               if FinishReason choice \<noteq> [] then
                 (evs @ finishEvents seed st3 (FinishReason choice), st3, True)
               else (evs, st3, False)))"

text \<open>
  The loop \<open>for stream.Next()\<close>: the events written, the chunks left unread when the
  handler returns from inside the loop, and whether it did.
\<close>

fun streamLoop ::
  "range_seed \<Rightarrow> StreamState \<Rightarrow> Chunk list \<Rightarrow> event list \<times> Chunk list \<times> bool" where
  "streamLoop seed st [] = ([], [], False)"
| "streamLoop seed st (chunk # rest) =
     (case processChunk seed st chunk of
        (evs, st1, returned) \<Rightarrow>
          if returned then (evs, rest, True)
          else (case streamLoop seed st1 rest of
                  (evs', left, r) \<Rightarrow> (evs @ evs', left, r)))"

datatype stream_error = StreamingNotSupported

text \<open>
  The handler: \<open>flusher\<close> says whether the writer is an \<open>http.Flusher\<close>, \<open>chunks\<close> is what
  \<open>stream.Next\<close> yields and \<open>streamErr\<close> is \<open>stream.Err()\<close> after the last chunk. The
  result is the events written and the chunks never read.
\<close>

definition HandleOpenAIToAnthropicStreamResponse ::
  "range_seed \<Rightarrow> bool \<Rightarrow> string \<Rightarrow> Chunk list \<Rightarrow> string option
     \<Rightarrow> stream_error + event list \<times> Chunk list" where
  "HandleOpenAIToAnthropicStreamResponse seed flusher responseModel chunks streamErr =
     (if \<not> flusher then Inl StreamingNotSupported
      else case streamLoop seed initialState chunks of
        (evs, left, returned) \<Rightarrow>
          if returned then Inr (MessageStart responseModel # evs, left)
          else (case streamErr of
                  Some err \<Rightarrow> Inr (MessageStart responseModel # evs @ [ErrorEvent err], left)
                | None \<Rightarrow> Inr (MessageStart responseModel # evs, left)))"

section \<open>The count-tokens endpoint (\<open>internal/server/anthropic_v1_beta.go\<close>)\<close>

record BetaMessageParam =
  bm_Role :: string
  bm_Text :: "string list"

record BetaMessageCountTokensParams =
  ct_Model :: string
  ct_Messages :: "BetaMessageParam list"
  ct_System :: "string list"

text \<open>\<open>typ.Provider\<close>, with the fields this handler reads.\<close>

record ProviderEntry =
  prov_UUID :: string
  prov_APIStyle :: string
  prov_Timeout :: int

datatype 'm count_response =
    InvalidRequestBodyError
  | StatusOK_Message 'm
  | StatusOK_Count int

text \<open>
  \<open>anthropicCountTokensBeta\<close>: \<open>bind\<close> is the result of \<open>c.ShouldBindJSON\<close> (\<open>None\<close> for
  a body it rejects), \<open>upstream\<close> the call \<open>BetaMessagesCountTokens\<close> of the client. The
  local counter \<open>countBetaTokensWithTiktoken\<close> is called here and declared in another
  file of the package: it is the parameter \<open>localCount\<close>, from the model name, the
  messages and the system blocks to a count or an error.
\<close>

definition anthropicCountTokensBeta ::
  "(BetaMessageCountTokensParams \<Rightarrow> string + 'm)
     \<Rightarrow> (string \<Rightarrow> BetaMessageParam list \<Rightarrow> string list \<Rightarrow> string + int)
     \<Rightarrow> BetaMessageCountTokensParams option
     \<Rightarrow> ProviderEntry \<Rightarrow> Service \<Rightarrow> 'm count_response" where
  "anthropicCountTokensBeta upstream localCount bind provider selectedService =
     (let actualModel = Model selectedService;
          apiStyle = (if prov_APIStyle provider = [] then ''openai''
                      else prov_APIStyle provider)
      in case bind of
           None \<Rightarrow> InvalidRequestBodyError
         | Some req0 \<Rightarrow>
             (let req = req0\<lparr>ct_Model := actualModel\<rparr> in
              if apiStyle = ''anthropic'' then
                (case upstream req of
                   Inl err \<Rightarrow> InvalidRequestBodyError
                 | Inr message \<Rightarrow> StatusOK_Message message)
              else
                (case localCount (ct_Model req) (ct_Messages req) (ct_System req) of
                   Inl err \<Rightarrow> InvalidRequestBodyError
                 | Inr tokens \<Rightarrow> StatusOK_Count tokens)))"

section \<open>The encrypted configuration file (\<open>AppConfig.Save\<close>, \<open>AppConfig.Load\<close>)\<close>

text \<open>
  \<open>Provider\<close> and \<open>Config\<close>. \<open>Providers\<close> is a Go map of pointers: \<open>None\<close> is the \<open>nil\<close>
  map, and a key bound to \<open>None\<close> holds a \<open>nil\<close> pointer. The field \<open>mu\<close> of \<open>Config\<close>
  is a lock, unexported and tagged \<open>json:"-"\<close>; it carries no configuration. The locks
  order concurrent calls and are left out: the operations below are single calls.
\<close>

record ProviderConfig =
  cfg_Name :: string
  cfg_APIBase :: string
  cfg_Token :: string
  cfg_Enabled :: bool

record Config =
  Providers :: "(string \<rightharpoonup> ProviderConfig option) option"
  ServerPort :: int
  JWTSecret :: string

subsection \<open>\<open>encoding/json\<close> on \<open>Config\<close>\<close>

text \<open>
  \<open>json.Marshal\<close> and \<open>json.Unmarshal\<close> work from the types and the field tags above. They
  are modelled in two layers: between a \<open>Config\<close> and a JSON document (\<open>json\<close>, members
  in the order of the text), which depends on the declaration of \<open>Config\<close> and is written
  out here; and between a document and its text, which does not and is a parameter.
\<close>

text \<open>
  \<open>utf8.DecodeRuneInString\<close>: the number of bytes of the well-formed UTF-8 sequence at
  the head of a string; 0 when there is none (Go then returns \<open>RuneError\<close> with width 1,
  or width 0 on the empty string).
\<close>

definition contByte :: "char \<Rightarrow> bool" where
  "contByte c = (let n = (of_char c :: nat) in 128 \<le> n \<and> n \<le> 191)"

definition inRange :: "nat \<Rightarrow> nat \<Rightarrow> char \<Rightarrow> bool" where
  "inRange lo hi c = (let n = (of_char c :: nat) in lo \<le> n \<and> n \<le> hi)"

definition twoBytes :: "string \<Rightarrow> nat" where
  "twoBytes rest = (case rest of b1 # r \<Rightarrow> if contByte b1 then 2 else 0 | [] \<Rightarrow> 0)"

definition threeBytes :: "nat \<Rightarrow> nat \<Rightarrow> string \<Rightarrow> nat" where
  "threeBytes lo hi rest =
     (case rest of
        b1 # b2 # r \<Rightarrow> if inRange lo hi b1 \<and> contByte b2 then 3 else 0
      | _ \<Rightarrow> 0)"

definition fourBytes :: "nat \<Rightarrow> nat \<Rightarrow> string \<Rightarrow> nat" where
  "fourBytes lo hi rest =
     (case rest of
        b1 # b2 # b3 # r \<Rightarrow> if inRange lo hi b1 \<and> contByte b2 \<and> contByte b3 then 4 else 0
      | _ \<Rightarrow> 0)"

definition runeLen :: "string \<Rightarrow> nat" where
  "runeLen s =
     (case s of
        [] \<Rightarrow> 0
      | b0 # rest \<Rightarrow>
          (let x = (of_char b0 :: nat) in
           if x < 128 then 1
           else if 194 \<le> x \<and> x \<le> 223 then twoBytes rest
           else if x = 224 then threeBytes 160 191 rest
           else if (225 \<le> x \<and> x \<le> 236) \<or> x = 238 \<or> x = 239 then threeBytes 128 191 rest
           else if x = 237 then threeBytes 128 159 rest
           else if x = 240 then fourBytes 144 191 rest
           else if 241 \<le> x \<and> x \<le> 243 then fourBytes 128 191 rest
           else if x = 244 then fourBytes 128 143 rest
           else 0))"

text \<open>U+FFFD, the replacement character, in UTF-8.\<close>

definition replacement :: string where
  "replacement = [CHR 0xEF, CHR 0xBF, CHR 0xBD]"

text \<open>
  What the encoder writes for a Go string, as the string a decoder reads back: the
  well-formed sequences as they are, and U+FFFD for each byte that starts none
  (\<open>appendString\<close> writes the escape of U+FFFD for it).
\<close>

function coerce :: "string \<Rightarrow> string" where
  "coerce [] = []"
| "coerce (b # bs) =
     (if runeLen (b # bs) = 0 then replacement @ coerce bs
      else take (runeLen (b # bs)) (b # bs) @ coerce (drop (runeLen (b # bs)) (b # bs)))"
  by pat_completeness auto
termination
  by (relation "measure length") auto

text \<open>\<open>strconv.AppendInt(_, n, 10)\<close>: the decimal digits, after a minus sign if negative.\<close>

function natDigits :: "nat \<Rightarrow> string" where
  "natDigits n =
     (if n < 10 then [char_of (48 + n)]
      else natDigits (n div 10) @ [char_of (48 + n mod 10)])"
  by pat_completeness auto
termination
  by (relation "measure id") auto

declare natDigits.simps [simp del]

definition FormatInt :: "int \<Rightarrow> string" where
  "FormatInt n = (if n < 0 then CHR ''-'' # natDigits (nat (- n)) else natDigits (nat n))"

text \<open>
  The document of a value. A struct is an object of its tagged fields in the order of
  declaration; a map is an object of its keys in sorted order (bytewise, before they are
  written), a \<open>nil\<close> map and a \<open>nil\<close> pointer are \<open>null\<close>.
\<close>

definition providerDocument :: "ProviderConfig option \<Rightarrow> json" where
  "providerDocument p =
     (case p of
        None \<Rightarrow> JNull
      | Some p \<Rightarrow>
          JObject [(''name'', JString (coerce (cfg_Name p))),
                   (''api_base'', JString (coerce (cfg_APIBase p))),
                   (''token'', JString (coerce (cfg_Token p))),
                   (''enabled'', JBool (cfg_Enabled p))])"

definition providersDocument :: "(string \<rightharpoonup> ProviderConfig option) option \<Rightarrow> json" where
  "providersDocument ps =
     (case ps of
        None \<Rightarrow> JNull
      | Some m \<Rightarrow>
          JObject (map (\<lambda>k. (coerce k, providerDocument (the (m k))))
                       (sorted_list_of_set (dom m))))"

definition configDocument :: "Config \<Rightarrow> json" where
  "configDocument c =
     JObject [(''providers'', providersDocument (Providers c)),
              (''server_port'', JNumber (FormatInt (ServerPort c))),
              (''jwt_secret'', JString (coerce (JWTSecret c)))]"

text \<open>
  Reading a document into a value. A member's key selects the field whose name it equals
  up to case folding; the names here are ASCII, and the only letters outside ASCII that
  fold to an ASCII letter are U+017F (to \<open>s\<close>) and U+212A (to \<open>k\<close>). Members are
  taken in the order of the text, so a later one overwrites; unknown keys are skipped.
\<close>

fun foldName :: "string \<Rightarrow> string" where
  "foldName [] = []"
| "foldName (c # cs) =
     (if prefix [CHR 0xC5, CHR 0xBF] (c # cs) then CHR ''s'' # foldName (drop 1 cs)
      else if prefix [CHR 0xE2, CHR 0x84, CHR 0xAA] (c # cs) then CHR ''k'' # foldName (drop 2 cs)
      else lower_char c # foldName cs)"

text \<open>
  A value into a field that holds \<open>old\<close>: \<open>null\<close> leaves a string, a number or a boolean
  as it is; a value of another kind is an \<open>UnmarshalTypeError\<close> (\<open>None\<close>), and so is a
  number that \<open>strconv.ParseInt(_, 10, 64)\<close> refuses.
\<close>

definition unmarshalString :: "json \<Rightarrow> string \<Rightarrow> string option" where
  "unmarshalString v old = (case v of JNull \<Rightarrow> Some old | JString s \<Rightarrow> Some s | _ \<Rightarrow> None)"

definition unmarshalBool :: "json \<Rightarrow> bool \<Rightarrow> bool option" where
  "unmarshalBool v old = (case v of JNull \<Rightarrow> Some old | JBool b \<Rightarrow> Some b | _ \<Rightarrow> None)"

definition unmarshalInt :: "json \<Rightarrow> int \<Rightarrow> int option" where
  "unmarshalInt v old = (case v of JNull \<Rightarrow> Some old | JNumber lit \<Rightarrow> Atoi lit | _ \<Rightarrow> None)"

text \<open>The loop over the members of an object, leaving at the first error.\<close>

fun members :: "('a \<Rightarrow> string \<times> json \<Rightarrow> 'a option) \<Rightarrow> 'a \<Rightarrow> (string \<times> json) list \<Rightarrow> 'a option" where
  "members f a [] = Some a"
| "members f a (kv # kvs) = (case f a kv of None \<Rightarrow> None | Some a' \<Rightarrow> members f a' kvs)"

definition providerMember :: "ProviderConfig \<Rightarrow> string \<times> json \<Rightarrow> ProviderConfig option" where
  "providerMember p kv =
     (case kv of (key, v) \<Rightarrow>
        if foldName key = ''name'' then
          map_option (\<lambda>s. p\<lparr>cfg_Name := s\<rparr>) (unmarshalString v (cfg_Name p))
        else if foldName key = ''api_base'' then
          map_option (\<lambda>s. p\<lparr>cfg_APIBase := s\<rparr>) (unmarshalString v (cfg_APIBase p))
        else if foldName key = ''token'' then
          map_option (\<lambda>s. p\<lparr>cfg_Token := s\<rparr>) (unmarshalString v (cfg_Token p))
        else if foldName key = ''enabled'' then
          map_option (\<lambda>b. p\<lparr>cfg_Enabled := b\<rparr>) (unmarshalBool v (cfg_Enabled p))
        else Some p)"

definition zeroProvider :: ProviderConfig where
  "zeroProvider = \<lparr>cfg_Name = [], cfg_APIBase = [], cfg_Token = [], cfg_Enabled = False\<rparr>"

text \<open>An element of the map, of type \<open>*Provider\<close>: \<open>null\<close> is the \<open>nil\<close> pointer, an object a
  fresh \<open>Provider\<close>.\<close>

definition unmarshalProvider :: "json \<Rightarrow> ProviderConfig option option" where
  "unmarshalProvider v =
     (case v of
        JNull \<Rightarrow> Some None
      | JObject kvs \<Rightarrow> map_option Some (members providerMember zeroProvider kvs)
      | _ \<Rightarrow> None)"

definition providersMember ::
  "(string \<rightharpoonup> ProviderConfig option) \<Rightarrow> string \<times> json \<Rightarrow> (string \<rightharpoonup> ProviderConfig option) option" where
  "providersMember m kv =
     (case kv of (key, v) \<Rightarrow> map_option (\<lambda>p. m(key \<mapsto> p)) (unmarshalProvider v))"

text \<open>The map: \<open>null\<close> sets it to \<open>nil\<close>, an object adds its members to the map there is (a
  new one if it is \<open>nil\<close>).\<close>

definition unmarshalProviders ::
  "json \<Rightarrow> (string \<rightharpoonup> ProviderConfig option) option \<Rightarrow> (string \<rightharpoonup> ProviderConfig option) option option" where
  "unmarshalProviders v old =
     (case v of
        JNull \<Rightarrow> Some None
      | JObject kvs \<Rightarrow>
          map_option Some
            (members providersMember (case old of None \<Rightarrow> Map.empty | Some m \<Rightarrow> m) kvs)
      | _ \<Rightarrow> None)"

definition configMember :: "Config \<Rightarrow> string \<times> json \<Rightarrow> Config option" where
  "configMember c kv =
     (case kv of (key, v) \<Rightarrow>
        if foldName key = ''providers'' then
          map_option (\<lambda>ps. c\<lparr>Providers := ps\<rparr>) (unmarshalProviders v (Providers c))
        else if foldName key = ''server_port'' then
          map_option (\<lambda>n. c\<lparr>ServerPort := n\<rparr>) (unmarshalInt v (ServerPort c))
        else if foldName key = ''jwt_secret'' then
          map_option (\<lambda>s. c\<lparr>JWTSecret := s\<rparr>) (unmarshalString v (JWTSecret c))
        else Some c)"

definition zeroConfig :: Config where
  "zeroConfig = \<lparr>Providers = None, ServerPort = 0, JWTSecret = []\<rparr>"

text \<open>Into \<open>var config Config\<close>, the zero value; \<open>null\<close> at the top leaves it.\<close>

definition unmarshalConfig :: "json \<Rightarrow> Config option" where
  "unmarshalConfig v =
     (case v of
        JNull \<Rightarrow> Some zeroConfig
      | JObject kvs \<Rightarrow> members configMember zeroConfig kvs
      | _ \<Rightarrow> None)"

subsection \<open>\<open>Save\<close> and \<open>Load\<close>\<close>

text \<open>
  \<open>cipher.AEAD\<close> as \<open>initEncryption\<close> builds it (AES-GCM): \<open>Seal nonce plaintext\<close> is the
  sealed text that \<open>gcm.Seal\<close> appends to its first argument, \<open>Open nonce ciphertext\<close> is
  \<open>None\<close> when authentication fails.
\<close>

record AEAD =
  NonceSize :: nat
  Seal :: "string \<Rightarrow> string \<Rightarrow> string"
  Open :: "string \<Rightarrow> string \<Rightarrow> string option"

text \<open>
  The standard library that \<open>Save\<close> and \<open>Load\<close> call: the text of a JSON document and
  its reading (\<open>None\<close> for an error), \<open>base64.StdEncoding\<close>, and
  \<open>io.ReadFull(rand.Reader, _)\<close> for a number of bytes.
\<close>

record Library =
  json_write :: "json \<Rightarrow> string option"
  json_read :: "string \<Rightarrow> json option"
  EncodeToString :: "string \<Rightarrow> string"
  DecodeString :: "string \<Rightarrow> string option"
  rand_Read :: "nat \<Rightarrow> string option"

text \<open>\<open>json.Marshal(ac.config)\<close> and \<open>json.Unmarshal(plaintext, &config)\<close>.\<close>

definition json_Marshal :: "Library \<Rightarrow> Config \<Rightarrow> string option" where
  "json_Marshal lib c = json_write lib (configDocument c)"

definition json_Unmarshal :: "Library \<Rightarrow> string \<Rightarrow> Config option" where
  "json_Unmarshal lib plaintext =
     (case json_read lib plaintext of
        None \<Rightarrow> None
      | Some document \<Rightarrow> unmarshalConfig document)"

record AppConfig =
  configFile :: string
  config :: Config
  gcm :: AEAD

text \<open>The files by path; \<open>writable\<close> says whether \<open>os.WriteFile\<close> succeeds.\<close>

type_synonym files = "string \<rightharpoonup> string"

datatype config_error =
    FailedToMarshal
  | RandomSourceFailed
  | FailedToWrite
  | FailedToRead
  | FailedToDecode
  | CiphertextTooShort
  | FailedToDecrypt
  | FailedToUnmarshal

definition Save :: "Library \<Rightarrow> bool \<Rightarrow> AppConfig \<Rightarrow> files \<Rightarrow> config_error option \<times> files" where
  "Save lib writable ac fs =
     (case json_Marshal lib (config ac) of
        None \<Rightarrow> (Some FailedToMarshal, fs)
      | Some data \<Rightarrow>
          (case rand_Read lib (NonceSize (gcm ac)) of
             None \<Rightarrow> (Some RandomSourceFailed, fs)
           | Some nonce \<Rightarrow>
               (let ciphertext = nonce @ Seal (gcm ac) nonce data;
                    encoded = EncodeToString lib ciphertext
                in if writable then (None, fs(configFile ac \<mapsto> encoded))
                   else (Some FailedToWrite, fs))))"

definition Load :: "Library \<Rightarrow> AppConfig \<Rightarrow> files \<Rightarrow> config_error + AppConfig" where
  "Load lib ac fs =
     (case fs (configFile ac) of
        None \<Rightarrow> Inl FailedToRead
      | Some data \<Rightarrow>
          (case DecodeString lib data of
             None \<Rightarrow> Inl FailedToDecode
           | Some ciphertext \<Rightarrow>
               (let nonceSize = NonceSize (gcm ac) in
                if length ciphertext < nonceSize then Inl CiphertextTooShort
                else
                  (let nonce = take nonceSize ciphertext;
                       ciphertext' = drop nonceSize ciphertext
                   in case Open (gcm ac) nonce ciphertext' of
                        None \<Rightarrow> Inl FailedToDecrypt
                      | Some plaintext \<Rightarrow>
                          (case json_Unmarshal lib plaintext of
                             None \<Rightarrow> Inl FailedToUnmarshal
                           | Some cfg \<Rightarrow> Inr (ac\<lparr>config := cfg\<rparr>))))))"

text \<open>
  \<open>AddProvider\<close>: the three checks, the assignment into the map (a panic on a \<open>nil\<close>
  map), then \<open>Save\<close>. It returns the error, the \<open>AppConfig\<close> and the files it leaves.
\<close>

datatype provider_error =
    NameEmpty
  | APIBaseEmpty
  | TokenEmpty
  | AssignmentToNilMap
  | SaveFailed config_error

definition AddProvider ::
  "Library \<Rightarrow> bool \<Rightarrow> string \<Rightarrow> string \<Rightarrow> string \<Rightarrow> AppConfig \<Rightarrow> files
     \<Rightarrow> provider_error option \<times> AppConfig \<times> files" where
  "AddProvider lib writable name apiBase token ac fs =
     (if name = [] then (Some NameEmpty, ac, fs)
      else if apiBase = [] then (Some APIBaseEmpty, ac, fs)
      else if token = [] then (Some TokenEmpty, ac, fs)
      else
        (case Providers (config ac) of
           None \<Rightarrow> (Some AssignmentToNilMap, ac, fs)
         | Some m \<Rightarrow>
             (let provider = \<lparr>cfg_Name = name, cfg_APIBase = apiBase, cfg_Token = token,
                               cfg_Enabled = True\<rparr>;
                  ac' = ac\<lparr>config := (config ac)\<lparr>Providers := Some (m(name \<mapsto> Some provider))\<rparr>\<rparr>
              in case Save lib writable ac' fs of
                   (None, fs') \<Rightarrow> (None, ac', fs')
                 | (Some err, fs') \<Rightarrow> (Some (SaveFailed err), ac', fs'))))"

section \<open>Notions used to state the properties\<close>

subsection \<open>Of the stream translator\<close>

text \<open>A chunk carries a finish reason: it has a choice, and the first one's is not empty.\<close>

definition carriesFinish :: "Chunk \<Rightarrow> bool" where
  "carriesFinish chunk =
     (case Choices chunk of [] \<Rightarrow> False | choice # others \<Rightarrow> FinishReason choice \<noteq> [])"

definition finishReasonOf :: "Chunk \<Rightarrow> string" where
  "finishReasonOf chunk =
     (case Choices chunk of [] \<Rightarrow> [] | choice # others \<Rightarrow> FinishReason choice)"

text \<open>The indices of the blocks opened and of the blocks stopped, in the order of the events.\<close>

fun startIndices :: "event list \<Rightarrow> int list" where
  "startIndices [] = []"
| "startIndices (ContentBlockStart i b # evs) = i # startIndices evs"
| "startIndices (e # evs) = startIndices evs"

fun stopIndices :: "event list \<Rightarrow> int list" where
  "stopIndices [] = []"
| "stopIndices (ContentBlockStop i # evs) = i # stopIndices evs"
| "stopIndices (e # evs) = stopIndices evs"

text \<open>The indices of the tool-use blocks opened, in the order they were opened.\<close>

fun toolStarts :: "event list \<Rightarrow> int list" where
  "toolStarts [] = []"
| "toolStarts (ContentBlockStart i (ToolUseBlock callID name) # evs) = i # toolStarts evs"
| "toolStarts (e # evs) = toolStarts evs"

text \<open>Some text delta was sent.\<close>

fun textSent :: "event list \<Rightarrow> bool" where
  "textSent [] = False"
| "textSent (ContentBlockDelta i (TextDelta t) # evs) = True"
| "textSent (e # evs) = textSent evs"

fun startOrDelta :: "event \<Rightarrow> bool" where
  "startOrDelta (ContentBlockStart i b) = True"
| "startOrDelta (ContentBlockDelta i d) = True"
| "startOrDelta e = False"

text \<open>The output tokens last reported, as the handler tracks them chunk by chunk.\<close>

definition usageAfter :: "int \<Rightarrow> Chunk \<Rightarrow> int" where
  "usageAfter n chunk =
     (case Choices chunk of
        [] \<Rightarrow> if usage_PromptTokens chunk > 0 \<or> usage_CompletionTokens chunk > 0
              then usage_CompletionTokens chunk else n
      | choice # others \<Rightarrow>
          if usage_CompletionTokens chunk > 0 then usage_CompletionTokens chunk else n)"

definition lastOutputTokens :: "Chunk list \<Rightarrow> int" where
  "lastOutputTokens chunks = foldl usageAfter 0 chunks"

text \<open>
  The starts and deltas written for a run of chunks, the finish reason left aside: what
  the handler has written for them when it reaches the test of the finish reason.
\<close>

definition chunkEvents :: "StreamState \<Rightarrow> Chunk \<Rightarrow> event list \<times> StreamState" where
  "chunkEvents st chunk =
     (case Choices chunk of
        [] \<Rightarrow> ([], usageOnly st chunk)
      | choice # others \<Rightarrow> handleChoice st chunk choice)"

fun runChunks :: "StreamState \<Rightarrow> Chunk list \<Rightarrow> event list \<times> StreamState" where
  "runChunks st [] = ([], st)"
| "runChunks st (chunk # rest) =
     (case chunkEvents st chunk of
        (evs, st1) \<Rightarrow> (case runChunks st1 rest of (evs', st2) \<Rightarrow> (evs @ evs', st2)))"

definition contentEvents :: "Chunk list \<Rightarrow> event list" where
  "contentEvents chunks = fst (runChunks initialState chunks)"

subsection \<open>Of the request parser\<close>

text \<open>
  The estimate as the specification words it: every text piece counts its Unicode code
  points, divided by four, and the pieces are summed. A code point of UTF-8 text is a byte
  that is not a continuation byte (\<open>0x80\<close> to \<open>0xBF\<close>).
\<close>

definition is_continuation_byte :: "char \<Rightarrow> bool" where
  "is_continuation_byte c = (let n = (of_char c :: nat) in 128 \<le> n \<and> n \<le> 191)"

definition rune_count :: "string \<Rightarrow> nat" where
  "rune_count s = length (filter (\<lambda>c. \<not> is_continuation_byte c) s)"

definition spec_estimate :: "string list \<Rightarrow> int" where
  "spec_estimate pieces = sum_list (map (\<lambda>piece. int (rune_count piece) div 4) pieces)"

text \<open>The other reading of the same sentence: the code points are summed, then divided.\<close>

definition spec_estimate_total :: "string list \<Rightarrow> int" where
  "spec_estimate_total pieces = int (sum_list (map rune_count pieces)) div 4"

subsection \<open>Of the rule validator\<close>

text \<open>The table of the specification: the operations permitted for each position.\<close>

definition permitted :: "(string \<times> string) list" where
  "permitted =
     [(''model'', ''contains''), (''model'', ''glob''), (''model'', ''equals''),
      (''thinking'', ''enabled''), (''thinking'', ''disabled''),
      (''system'', ''any_contains''), (''system'', ''regex''),
      (''user'', ''any_contains''), (''user'', ''contains''), (''user'', ''regex''),
      (''user'', ''type''),
      (''tool_use'', ''is''), (''tool_use'', ''contains''),
      (''token'', ''ge''), (''token'', ''gt''), (''token'', ''le''), (''token'', ''lt'')]"

text \<open>What an accepted rule satisfies (the value of an Op is not part of it).\<close>

definition rule_ok :: "SmartRouting \<Rightarrow> bool" where
  "rule_ok rule \<longleftrightarrow>
     Description rule \<noteq> [] \<and> Ops rule \<noteq> []
     \<and> (\<forall>op \<in> set (Ops rule). (Position op, Operation op) \<in> set permitted)
     \<and> Services rule \<noteq> []
     \<and> (\<forall>svc \<in> set (Services rule). Provider svc \<noteq> [] \<and> Model svc \<noteq> [])"

text \<open>
  The value type that the registry \<open>AllOperations\<close> declares for the operations of a
  position: \<open>int\<close> for \<open>token\<close>, \<open>bool\<close> for \<open>thinking\<close>, \<open>string\<close> for the others.
\<close>

definition declaredValueType :: "string \<Rightarrow> string" where
  "declaredValueType pos =
     (if pos = PositionToken then ''int''
      else if pos = PositionThinking then ''bool''
      else ''string'')"

subsection \<open>Of the configuration file\<close>

text \<open>\<open>utf8.ValidString\<close>: the string is a sequence of well-formed UTF-8 sequences.\<close>

function valid_utf8 :: "string \<Rightarrow> bool" where
  "valid_utf8 [] = True"
| "valid_utf8 (b # bs) =
     (if runeLen (b # bs) = 0 then False
      else valid_utf8 (drop (runeLen (b # bs)) (b # bs)))"
  by pat_completeness auto
termination
  by (relation "measure length") auto

text \<open>
  Every string of a configuration is valid UTF-8: the secret, the keys of the map, and
  the name, the base URL and the token of each provider.
\<close>

definition valid_provider :: "ProviderConfig option \<Rightarrow> bool" where
  "valid_provider p =
     (case p of
        None \<Rightarrow> True
      | Some p \<Rightarrow> valid_utf8 (cfg_Name p) \<and> valid_utf8 (cfg_APIBase p) \<and> valid_utf8 (cfg_Token p))"

definition valid_config :: "Config \<Rightarrow> bool" where
  "valid_config c =
     (valid_utf8 (JWTSecret c)
      \<and> (case Providers c of
           None \<Rightarrow> True
         | Some m \<Rightarrow> \<forall>k \<in> dom m. valid_utf8 k \<and> valid_provider (the (m k))))"

text \<open>
  What the types \<open>int\<close> and \<open>map\<close> of Go give: the port is a 64-bit integer and the map
  has finitely many keys.
\<close>

definition go_config :: "Config \<Rightarrow> bool" where
  "go_config c =
     (in_int64 (ServerPort c) = Some (ServerPort c)
      \<and> (case Providers c of None \<Rightarrow> True | Some m \<Rightarrow> finite (dom m)))"

section \<open>Inputs used in the examples\<close>

definition S_big :: Service where
  "S_big = \<lparr>Provider = ''provider-big'', Model = ''claude-opus'', Weight = 1, Active = True\<rparr>"

definition S_haiku :: Service where
  "S_haiku =
     \<lparr>Provider = ''provider-small'', Model = ''claude-3-haiku'', Weight = 1, Active = True\<rparr>"

definition noMeta :: SmartOpMeta where
  "noMeta = \<lparr>meta_Description = [], meta_Type = []\<rparr>"

definition rule_big :: SmartRouting where
  "rule_big =
     \<lparr>Description = ''large requests'',
      Ops = [\<lparr>Position = ''token'', Operation = ''ge'', Value = ''6000'', Meta = noMeta\<rparr>],
      Services = [S_big]\<rparr>"

definition rule_haiku :: SmartRouting where
  "rule_haiku =
     \<lparr>Description = ''haiku models'',
      Ops = [\<lparr>Position = ''model'', Operation = ''contains'', Value = ''haiku'', Meta = noMeta\<rparr>],
      Services = [S_haiku]\<rparr>"

text \<open>A rule whose Op compares the token count with a value that is not a number.\<close>

definition rule_not_a_number :: SmartRouting where
  "rule_not_a_number =
     \<lparr>Description = ''large requests'',
      Ops = [\<lparr>Position = ''token'', Operation = ''ge'', Value = ''abc'', Meta = noMeta\<rparr>],
      Services = [S_big]\<rparr>"

text \<open>Scenario F of the specification: an operation of another position.\<close>

definition rule_mismatch :: SmartRouting where
  "rule_mismatch =
     \<lparr>Description = ''malformed'',
      Ops = [\<lparr>Position = ''model'', Operation = ''enabled'', Value = [], Meta = noMeta\<rparr>],
      Services = [S_big]\<rparr>"

definition ctx_small :: RequestContext where
  "ctx_small =
     \<lparr>ctx_Model = ''claude-3-haiku'', ThinkingEnabled = False, SystemMessages = [],
      UserMessages = [''hi''], ToolUses = [], LatestContentType = [],
      EstimatedTokens = 5200\<rparr>"

definition no_glob :: glob_compile where
  "no_glob = (\<lambda>pattern. None)"

definition no_marshal :: json_marshal where
  "no_marshal = (\<lambda>v. [])"

text \<open>A request with a system message of four bytes and a user message of three.\<close>

definition request_two_pieces :: json where
  "request_two_pieces =
     JObject [(''model'', JString ''gpt-4''),
       (''messages'', JArray [
          JObject [(''role'', JString ''system''), (''content'', JString ''abcd'')],
          JObject [(''role'', JString ''user''), (''content'', JString ''efg'')]])]"

text \<open>A request whose last message is the assistant's.\<close>

definition request_assistant_last :: json where
  "request_assistant_last =
     JObject [(''model'', JString ''claude-3-haiku''),
       (''messages'', JArray [
          JObject [(''role'', JString ''user''), (''content'', JString ''hello'')],
          JObject [(''role'', JString ''assistant''), (''content'', JString ''ok'')]])]"

definition op_user_contains_hello :: SmartOp where
  "op_user_contains_hello =
     \<lparr>Position = ''user'', Operation = ''contains'', Value = ''hello'', Meta = noMeta\<rparr>"

text \<open>The role of the last message of a request, read from the parsed body.\<close>

definition lastMessageRole :: "json \<Rightarrow> string option" where
  "lastMessageRole v =
     (case GetArray v ''messages'' of
        [] \<Rightarrow> None
      | m # ms \<Rightarrow>
          (case value_Get (last (m # ms)) ''role'' of
             Some (JString role) \<Rightarrow> Some role
           | _ \<Rightarrow> None))"

text \<open>What both extractors return for \<open>request_two_pieces\<close> and \<open>request_assistant_last\<close>.\<close>

definition ctx_two_pieces :: RequestContext where
  "ctx_two_pieces =
     \<lparr>ctx_Model = ''gpt-4'', ThinkingEnabled = False, SystemMessages = [''abcd''],
      UserMessages = [''efg''], ToolUses = [], LatestContentType = [], EstimatedTokens = 2\<rparr>"

definition ctx_assistant_last :: RequestContext where
  "ctx_assistant_last =
     \<lparr>ctx_Model = ''claude-3-haiku'', ThinkingEnabled = False, SystemMessages = [],
      UserMessages = [''hello''], ToolUses = [], LatestContentType = [],
      EstimatedTokens = 1\<rparr>"

text \<open>Chunks of a stream: a tool call opening at an index, a text delta, the last chunk.\<close>

definition chunk_tool :: "int \<Rightarrow> Chunk" where
  "chunk_tool i =
     \<lparr>Choices = [\<lparr>delta_Content = [],
                   delta_ToolCalls = [\<lparr>tcd_Index = i, tcd_ID = ''call'', tcd_Name = ''lookup'',
                                       tcd_Arguments = []\<rparr>],
                   FinishReason = []\<rparr>],
      usage_PromptTokens = 0, usage_CompletionTokens = 0\<rparr>"

definition chunk_text :: Chunk where
  "chunk_text =
     \<lparr>Choices = [\<lparr>delta_Content = ''hi'', delta_ToolCalls = [], FinishReason = []\<rparr>],
      usage_PromptTokens = 0, usage_CompletionTokens = 0\<rparr>"

definition chunk_stop :: Chunk where
  "chunk_stop =
     \<lparr>Choices = [\<lparr>delta_Content = [], delta_ToolCalls = [], FinishReason = ''stop''\<rparr>],
      usage_PromptTokens = 3, usage_CompletionTokens = 7\<rparr>"

text \<open>What the handler writes for two streams (see the properties of the translator).\<close>

definition events_two_tools :: "event list" where
  "events_two_tools =
     [MessageStart ''m'',
      ContentBlockStart 0 (ToolUseBlock ''call'' ''lookup''),
      ContentBlockStart 1 (ToolUseBlock ''call'' ''lookup''),
      ContentBlockStop 1, ContentBlockStop 0,
      MessageDelta ''end_turn'' 7, MessageStop]"

definition events_text_after_tool :: "event list" where
  "events_text_after_tool =
     [MessageStart ''m'',
      ContentBlockStart 0 (ToolUseBlock ''call'' ''lookup''),
      ContentBlockDelta 1 (TextDelta ''hi''),
      ContentBlockStop 0, ContentBlockStop 0,
      MessageDelta ''end_turn'' 7, MessageStop]"

text \<open>The invariant of the handler's loop: the state against the events written so far.\<close>

definition loop_invariant :: "event list \<Rightarrow> StreamState \<Rightarrow> bool" where
  "loop_invariant evs st \<longleftrightarrow>
     map fst (pendingToolCalls st) = toolStarts evs
     \<and> (sentTextContent st \<longleftrightarrow> textSent evs)
     \<and> distinct (toolStarts evs) \<and> list_all startOrDelta evs"

text \<open>An OpenAI request with a system message and a user message.\<close>

definition request_with_system :: ChatCompletionNewParams where
  "request_with_system =
     \<lparr>req_Model = ''gpt-4'',
      req_Messages =
        [\<lparr>GetRole = Some ''system'',
          marshalled = Some \<lparr>m_content = Some ''Be brief'', m_tool_calls = None,
                             m_tool_call_id = None\<rparr>\<rparr>,
         \<lparr>GetRole = Some ''user'',
          marshalled = Some \<lparr>m_content = Some ''hi'', m_tool_calls = None,
                             m_tool_call_id = None\<rparr>\<rparr>],
      req_MaxTokens = 1024\<rparr>"

definition no_json :: json_parser where
  "no_json = (\<lambda>text. None)"

text \<open>An OpenAI response cut off by the token limit, and one stopped by the content filter.\<close>

definition response_length :: ChatCompletion where
  "response_length =
     \<lparr>resp_Choices = [\<lparr>choice_Content = ''partial answer'', choice_ToolCalls = [],
                        choice_FinishReason = ''length''\<rparr>],
      resp_PromptTokens = 10, resp_CompletionTokens = 20\<rparr>"

definition response_filtered :: ChatCompletion where
  "response_filtered =
     \<lparr>resp_Choices = [\<lparr>choice_Content = [], choice_ToolCalls = [],
                        choice_FinishReason = ''content_filter''\<rparr>],
      resp_PromptTokens = 10, resp_CompletionTokens = 0\<rparr>"

text \<open>
  A configuration with one provider; the configuration that \<open>NewAppConfig\<close> starts from;
  the one that \<open>AddProvider\<close> leaves when the token is the single byte \<open>0xFF\<close>, and that
  one with U+FFFD for the token. Then the documents of these, and stand-ins for the
  libraries: a writer and a reader that know these documents, an identity encoding, a
  sealing that reverses the text and appends the nonce as its tag, and a random source
  that yields twelve fixed bytes.
\<close>

definition provider_one :: ProviderConfig where
  "provider_one =
     \<lparr>cfg_Name = ''openai'', cfg_APIBase = ''https://api.openai.com/v1'',
      cfg_Token = ''sk-1'', cfg_Enabled = True\<rparr>"

definition config_one :: Config where
  "config_one =
     \<lparr>Providers = Some [''openai'' \<mapsto> Some provider_one],
      ServerPort = 8080, JWTSecret = ''1700000000''\<rparr>"

definition config_new :: Config where
  "config_new = \<lparr>Providers = Some Map.empty, ServerPort = 8080, JWTSecret = ''1700000000''\<rparr>"

definition config_bad :: Config where
  "config_bad =
     \<lparr>Providers = Some [''openai'' \<mapsto> Some (provider_one\<lparr>cfg_Token := [CHR 0xFF]\<rparr>)],
      ServerPort = 8080, JWTSecret = ''1700000000''\<rparr>"

definition config_replaced :: Config where
  "config_replaced =
     \<lparr>Providers = Some [''openai'' \<mapsto> Some (provider_one\<lparr>cfg_Token := replacement\<rparr>)],
      ServerPort = 8080, JWTSecret = ''1700000000''\<rparr>"

definition document_of_token :: "string \<Rightarrow> json" where
  "document_of_token token =
     JObject
       [(''providers'',
         JObject [(''openai'',
           JObject [(''name'', JString ''openai''),
                    (''api_base'', JString ''https://api.openai.com/v1''),
                    (''token'', JString token),
                    (''enabled'', JBool True)])]),
        (''server_port'', JNumber ''8080''),
        (''jwt_secret'', JString ''1700000000'')]"

definition toy_gcm :: AEAD where
  "toy_gcm =
     \<lparr>NonceSize = 12,
      Seal = (\<lambda>nonce plaintext. rev plaintext @ nonce),
      Open = (\<lambda>nonce sealed.
         if length sealed \<ge> 12 \<and> drop (length sealed - 12) sealed = nonce
         then Some (rev (take (length sealed - 12) sealed)) else None)\<rparr>"

definition toy_library :: Library where
  "toy_library =
     \<lparr>json_write = (\<lambda>document.
         if document = document_of_token ''sk-1'' then Some ''one''
         else if document = document_of_token replacement then Some ''bad''
         else None),
      json_read = (\<lambda>text.
         if text = ''one'' then Some (document_of_token ''sk-1'')
         else if text = ''bad'' then Some (document_of_token replacement)
         else None),
      EncodeToString = (\<lambda>bytes. bytes),
      DecodeString = (\<lambda>text. Some text),
      rand_Read = (\<lambda>n. if n = 12 then Some ''0123456789ab'' else None)\<rparr>"

definition app_one :: AppConfig where
  "app_one = \<lparr>configFile = ''config.enc'', config = config_one, gcm = toy_gcm\<rparr>"

definition app_new :: AppConfig where
  "app_new = \<lparr>configFile = ''config.enc'', config = config_new, gcm = toy_gcm\<rparr>"

definition app_bad :: AppConfig where
  "app_bad = \<lparr>configFile = ''config.enc'', config = config_bad, gcm = toy_gcm\<rparr>"

section \<open>Properties of the smart router\<close>

lemmas position_defs =
  PositionModel_def PositionThinking_def PositionSystem_def PositionUser_def
  PositionToolUse_def PositionToken_def

lemmas operation_defs =
  OpModelContains_def OpModelGlob_def OpModelEquals_def OpThinkingEnabled_def
  OpThinkingDisabled_def OpSystemAnyContains_def OpSystemRegex_def OpUserAnyContains_def
  OpUserContains_def OpUserRegex_def OpUserRequestType_def OpToolUseIs_def
  OpToolUseContains_def OpTokenGe_def OpTokenGt_def OpTokenLe_def OpTokenLt_def

lemmas eval_defs = evaluateOp_def evaluateModelOp_def evaluateThinkingOp_def evaluateSystemOp_def
  evaluateUserOp_def evaluateToolUseOp_def evaluateTokenOp_def position_defs operation_defs
  Atoi_def parse_digits_def is_digit_def digit_val_def in_int64_def

lemmas example_defs = S_big_def S_haiku_def noMeta_def rule_big_def rule_haiku_def
  rule_not_a_number_def rule_mismatch_def ctx_small_def no_glob_def

lemmas json_defs = object_Get_def value_Get_def value_Object_def value_Array_def
  value_StringBytes_def GetStringBytes_def GetArray_def

lemmas extract_defs = ExtractContextFromOpenAIRequest_def ExtractContextFromAnthropicRequest_def
  openaiMessage_def anthropicMessage_def addUserContent_def extractContentString_def
  hasImageContent_def extractToolUsesOpenAI_def extractToolUsesAnthropicContent_def
  messageToolCalls_def toolDefinitionOpenAI_def toolDefinitionAnthropic_def emptyContext_def
  withEstimate_def EstimateTokens_def

subsection \<open>Selection\<close>

lemma evaluateOps_all: "evaluateOps glob ctx ops = list_all (evaluateOp glob ctx) ops"
  by (induction ops) auto

lemma evaluateRules_find:
  "evaluateRules glob ctx rs =
     (case find (evaluateRule glob ctx) rs of
        None \<Rightarrow> ([], False)
      | Some rule \<Rightarrow> (Services rule, True))"
  by (induction rs) auto

text \<open>
  C1. The selection is a function of the request context and the rule list: it returns
  the services of the first rule, in the order of the list, all of whose Ops evaluate
  true, and reports a match; when no rule is such, it returns the empty list and reports
  no match.
\<close>

theorem EvaluateRequest_first_match:
  "EvaluateRequest glob r ctx =
     (case find (\<lambda>rule. list_all (evaluateOp glob ctx) (Ops rule)) (rules r) of
        None \<Rightarrow> ([], False)
      | Some rule \<Rightarrow> (Services rule, True))"
proof -
  have "evaluateRule glob ctx = (\<lambda>rule. list_all (evaluateOp glob ctx) (Ops rule))"
    by (rule ext) (simp add: evaluateRule_def evaluateOps_all)
  then show ?thesis
    by (simp add: EvaluateRequest_def evaluateRules_find)
qed

text \<open>
  Scenario D of the specification: with 5200 estimated tokens the haiku rule is the first
  to match, with 6400 the token rule comes first, and another model matches no rule.
\<close>

theorem EvaluateRequest_first_match_witness:
  "EvaluateRequest no_glob \<lparr>rules = [rule_big, rule_haiku]\<rparr> ctx_small = ([S_haiku], True)
   \<and> EvaluateRequest no_glob \<lparr>rules = [rule_big, rule_haiku]\<rparr>
        (ctx_small\<lparr>EstimatedTokens := 6400\<rparr>) = ([S_big], True)
   \<and> EvaluateRequest no_glob \<lparr>rules = [rule_big, rule_haiku]\<rparr>
        (ctx_small\<lparr>ctx_Model := ''gpt-4''\<rparr>) = ([], False)"
  using EvaluateRequest_first_match [of no_glob "\<lparr>rules = [rule_big, rule_haiku]\<rparr>" ctx_small]
    EvaluateRequest_first_match [of no_glob "\<lparr>rules = [rule_big, rule_haiku]\<rparr>"
      "ctx_small\<lparr>EstimatedTokens := 6400\<rparr>"]
    EvaluateRequest_first_match [of no_glob "\<lparr>rules = [rule_big, rule_haiku]\<rparr>"
      "ctx_small\<lparr>ctx_Model := ''gpt-4''\<rparr>"]
  by (simp add: example_defs eval_defs)

subsection \<open>Validation\<close>

lemma ValidateSmartOp_None:
  "ValidateSmartOp op = None \<longleftrightarrow> (Position op, Operation op) \<in> set permitted"
  unfolding ValidateSmartOp_def IsValid_def isValidOperationForPosition_def validOps_def
    permitted_def position_defs operation_defs
  by auto

lemma validateOps_None:
  "validateOps i ops = None \<longleftrightarrow> (\<forall>op \<in> set ops. ValidateSmartOp op = None)"
  by (induction ops arbitrary: i) (auto split: option.splits)

lemma validateServices_None:
  "validateServices i svcs = None \<longleftrightarrow>
     (\<forall>svc \<in> set svcs. Provider svc \<noteq> [] \<and> Model svc \<noteq> [])"
  by (induction svcs arbitrary: i) auto

lemma ValidateSmartRouting_None: "ValidateSmartRouting rule = None \<longleftrightarrow> rule_ok rule"
proof (cases "validateOps 0 (Ops rule)")
  case None
  then have "\<forall>op \<in> set (Ops rule). (Position op, Operation op) \<in> set permitted"
    by (simp add: validateOps_None ValidateSmartOp_None)
  with None show ?thesis
    by (auto simp: ValidateSmartRouting_def rule_ok_def validateServices_None)
next
  case (Some err)
  then have "\<not> (\<forall>op \<in> set (Ops rule). (Position op, Operation op) \<in> set permitted)"
    using validateOps_None [of 0 "Ops rule"] by (simp add: ValidateSmartOp_None)
  with Some show ?thesis
    by (auto simp: ValidateSmartRouting_def rule_ok_def)
qed

lemma validateRules_None:
  "validateRules i rs = None \<longleftrightarrow> (\<forall>rule \<in> set rs. ValidateSmartRouting rule = None)"
  by (induction rs arbitrary: i) (auto split: option.splits)

lemma rule_ok_haiku: "rule_ok rule_haiku"
  by (simp add: rule_ok_def permitted_def example_defs)

lemma rule_ok_big: "rule_ok rule_big"
  by (simp add: rule_ok_def permitted_def example_defs)

lemma not_rule_ok_mismatch: "\<not> rule_ok rule_mismatch"
  by (simp add: rule_ok_def permitted_def example_defs)

text \<open>
  C9, as amended. Router construction accepts a rule set exactly when every rule has a
  non-empty description, a non-empty list of Ops each of whose operations is permitted
  for its position, and a non-empty list of services each with a non-empty provider and
  model; any violation rejects the whole set. The value of an Op is not examined.
\<close>

theorem NewRouter_accepts_iff:
  "(NewRouter rs = Inr \<lparr>rules = rs\<rparr> \<longleftrightarrow> (\<forall>rule \<in> set rs. rule_ok rule))
   \<and> ((\<exists>err. NewRouter rs = Inl err) \<longleftrightarrow> \<not> (\<forall>rule \<in> set rs. rule_ok rule))"
proof -
  have "validateRules 0 rs = None \<longleftrightarrow> (\<forall>rule \<in> set rs. rule_ok rule)"
    by (simp add: validateRules_None ValidateSmartRouting_None)
  then show ?thesis
    by (cases "validateRules 0 rs"; simp add: NewRouter_def)
qed

text \<open>
  Two well-formed rules are accepted; with the rule of scenario F (position \<open>model\<close>,
  operation \<open>enabled\<close>) in the set, the set is rejected.
\<close>

theorem NewRouter_accepts_iff_witness:
  "NewRouter [rule_big, rule_haiku] = Inr \<lparr>rules = [rule_big, rule_haiku]\<rparr>
   \<and> rule_ok rule_big \<and> rule_ok rule_haiku
   \<and> (\<exists>err. NewRouter [rule_big, rule_mismatch] = Inl err) \<and> \<not> rule_ok rule_mismatch"
  using NewRouter_accepts_iff [of "[rule_big, rule_haiku]"]
    NewRouter_accepts_iff [of "[rule_big, rule_mismatch]"]
    rule_ok_haiku rule_ok_big not_rule_ok_mismatch
  by simp

text \<open>
  C9 as stated fails: a rule set whose only Op is \<open>token ge "abc"\<close> is accepted, though
  the declared value type of the operation is \<open>int\<close> and \<open>"abc"\<close> does not parse as one.
\<close>

theorem unparseable_value_accepted:
  "NewRouter [rule_not_a_number] = Inr \<lparr>rules = [rule_not_a_number]\<rparr>
   \<and> map Position (Ops rule_not_a_number) = [''token'']
   \<and> declaredValueType ''token'' = ''int''
   \<and> map Value (Ops rule_not_a_number) = [''abc'']
   \<and> Atoi ''abc'' = None"
  by (simp add: NewRouter_def ValidateSmartRouting_def ValidateSmartOp_def IsValid_def
      isValidOperationForPosition_def validOps_def declaredValueType_def eval_defs example_defs)

subsection \<open>The entry point\<close>

text \<open>
  C10. With a \<open>nil\<close> router, or a body that is not valid JSON, the entry point returns the
  empty list and \<open>false\<close>, whatever the scenario: the result has no error component, and
  it is the result of a request that no rule matches.
\<close>

theorem EvaluateAndSelectServices_silent:
  "router = None \<or> parse body = None \<Longrightarrow>
     EvaluateAndSelectServices glob parse marshal router scenario body = ([], False)"
  by (auto simp: EvaluateAndSelectServices_def ExtractContextFromOpenAIRequest_def
      ExtractContextFromAnthropicRequest_def split: option.splits)

theorem EvaluateAndSelectServices_silent_witness:
  "EvaluateAndSelectServices no_glob (\<lambda>body. None) no_marshal
      (Some \<lparr>rules = [rule_haiku]\<rparr>) ''anthropic'' ''{not json'' = ([], False)
   \<and> EvaluateAndSelectServices no_glob (\<lambda>body. Some request_two_pieces) no_marshal
      None ''openai'' [] = ([], False)
   \<and> EvaluateRequest no_glob \<lparr>rules = [rule_haiku]\<rparr> (ctx_small\<lparr>ctx_Model := ''gpt-4''\<rparr>)
      = ([], False)"
  using EvaluateAndSelectServices_silent [of "Some \<lparr>rules = [rule_haiku]\<rparr>" "\<lambda>body. None"
      "''{not json''" no_glob no_marshal "''anthropic''"]
    EvaluateAndSelectServices_silent [of None "\<lambda>body. Some request_two_pieces" "[]" no_glob
      no_marshal "''openai''"]
  by (simp add: EvaluateRequest_def evaluateRule_def example_defs eval_defs)

section \<open>Properties of the request parser\<close>

lemma withEstimate_tokens:
  "EstimatedTokens (withEstimate ctx) =
     int (length (Join (SystemMessages ctx @ UserMessages ctx) ''\<newline>'')) div 4"
  by (simp add: withEstimate_def EstimateTokens_def Let_def)

lemma withEstimate_messages:
  "SystemMessages (withEstimate ctx) = SystemMessages ctx"
  "UserMessages (withEstimate ctx) = UserMessages ctx"
  by (simp_all add: withEstimate_def Let_def)

lemma extract_two_pieces:
  "ExtractContextFromOpenAIRequest (\<lambda>body. Some request_two_pieces) no_marshal [] =
     Inr ctx_two_pieces"
  by (simp add: request_two_pieces_def ctx_two_pieces_def extract_defs json_defs Let_def)

text \<open>
  C5, as amended. For every request that parses, in either dialect, the estimated token
  count is the length in bytes of the extracted system pieces followed by the user
  pieces, joined by newlines (so the separators count), divided by four and rounded down.
\<close>

theorem estimate_is_joined_bytes:
  assumes "ExtractContextFromOpenAIRequest parse marshal body = Inr ctx
     \<or> ExtractContextFromAnthropicRequest parse marshal body = Inr ctx"
  shows "EstimatedTokens ctx =
      int (length (Join (SystemMessages ctx @ UserMessages ctx) ''\<newline>'')) div 4"
  using assms
  by (auto simp: ExtractContextFromOpenAIRequest_def ExtractContextFromAnthropicRequest_def
      Let_def withEstimate_tokens withEstimate_messages split: option.splits)

theorem estimate_is_joined_bytes_witness:
  "ExtractContextFromOpenAIRequest (\<lambda>body. Some request_two_pieces) no_marshal [] =
     Inr ctx_two_pieces
   \<and> EstimatedTokens ctx_two_pieces = int (length ''abcd\<newline>efg'') div 4"
  using estimate_is_joined_bytes [of "\<lambda>body. Some request_two_pieces" no_marshal "[]"
      ctx_two_pieces] extract_two_pieces
  by (simp add: ctx_two_pieces_def)

text \<open>
  C5 as stated fails: for a system piece \<open>abcd\<close> and a user piece \<open>efg\<close> the estimate is
  2 (eight bytes with the separator), while the code points divided by four give 1, summed
  piece by piece or summed before the division.
\<close>

theorem estimate_not_code_points_per_piece:
  "ExtractContextFromOpenAIRequest (\<lambda>body. Some request_two_pieces) no_marshal [] =
     Inr ctx_two_pieces
   \<and> EstimatedTokens ctx_two_pieces = 2
   \<and> spec_estimate (SystemMessages ctx_two_pieces @ UserMessages ctx_two_pieces) = 1
   \<and> spec_estimate_total (SystemMessages ctx_two_pieces @ UserMessages ctx_two_pieces) = 1"
  using extract_two_pieces
  by (simp add: ctx_two_pieces_def spec_estimate_def spec_estimate_total_def rune_count_def
      is_continuation_byte_def)

text \<open>
  C6 fails on the code: in a request whose last message is the assistant's, the Op
  \<open>user contains "hello"\<close> evaluates true, because \<open>GetLatestUserMessage\<close> is the last of
  the user messages, wherever it stands in the request.
\<close>

theorem user_contains_ignores_last_role:
  "lastMessageRole request_assistant_last = Some ''assistant''
   \<and> ExtractContextFromAnthropicRequest (\<lambda>body. Some request_assistant_last) no_marshal [] =
       Inr ctx_assistant_last
   \<and> ExtractContextFromOpenAIRequest (\<lambda>body. Some request_assistant_last) no_marshal [] =
       Inr ctx_assistant_last
   \<and> evaluateOp no_glob ctx_assistant_last op_user_contains_hello = True"
  by (simp add: request_assistant_last_def ctx_assistant_last_def op_user_contains_hello_def
      lastMessageRole_def extract_defs json_defs Let_def eval_defs GetLatestUserMessage_def
      noMeta_def)

section \<open>Properties of the streaming translator\<close>

lemmas stream_defs = HandleOpenAIToAnthropicStreamResponse_def processChunk_def handleChoice_def
  handleContent_def handleToolCall_def finishEvents_def stopReasonOf_def usageOnly_def
  initialState_def addInput_def

lemmas chunk_defs = chunk_tool_def chunk_text_def chunk_stop_def

lemma toolStarts_append: "toolStarts (a @ b) = toolStarts a @ toolStarts b"
  by (induction a rule: toolStarts.induct) auto

lemma textSent_append: "textSent (a @ b) \<longleftrightarrow> textSent a \<or> textSent b"
  by (induction a rule: textSent.induct) auto

lemma keys_addInput: "map fst (addInput i a pending) = map fst pending"
  by (induction pending) (auto simp: addInput_def)

lemma lookup_None: "map_of pending i = None \<longleftrightarrow> i \<notin> set (map fst pending)"
  by (simp add: map_of_eq_None_iff)

subsection \<open>The loop keeps the state in step with the events\<close>

lemma handleToolCall_invariant:
  assumes "loop_invariant evs st" "handleToolCall st tc = (e, st')"
  shows "loop_invariant (evs @ e) st'"
  using assms
  by (auto simp: handleToolCall_def loop_invariant_def Let_def toolStarts_append
      textSent_append keys_addInput lookup_None simp del: set_map split: if_splits)

lemma handleToolCalls_invariant:
  "loop_invariant evs st \<Longrightarrow> handleToolCalls st tcs = (e, st') \<Longrightarrow>
   loop_invariant (evs @ e) st'"
proof (induction tcs arbitrary: evs st e st')
  case Nil
  then show ?case by simp
next
  case (Cons tc tcs)
  obtain e1 st1 where h1: "handleToolCall st tc = (e1, st1)" by force
  obtain e2 st2 where h2: "handleToolCalls st1 tcs = (e2, st2)" by force
  from Cons.prems(2) h1 h2 have eq: "e = e1 @ e2" "st' = st2" by auto
  from handleToolCall_invariant [OF Cons.prems(1) h1] have "loop_invariant (evs @ e1) st1" .
  from Cons.IH [OF this h2] show ?case by (simp add: eq)
qed

lemma handleContent_invariant:
  "loop_invariant evs st \<Longrightarrow> handleContent st content = (e, st') \<Longrightarrow>
   loop_invariant (evs @ e) st'"
  by (auto simp: handleContent_def loop_invariant_def toolStarts_append textSent_append
      split: if_splits)

lemma invariant_outputTokens:
  "loop_invariant evs st \<Longrightarrow> loop_invariant evs (st\<lparr>outputTokens := n\<rparr>)"
  by (simp add: loop_invariant_def)

lemma handleChoice_invariant:
  assumes "loop_invariant evs st" "handleChoice st chunk choice = (e, st')"
  shows "loop_invariant (evs @ e) st'"
proof -
  obtain e1 st1 where h1: "handleContent st (delta_Content choice) = (e1, st1)" by force
  obtain e2 st2 where h2: "(if length (delta_ToolCalls choice) > 0
                         then handleToolCalls st1 (delta_ToolCalls choice)
                         else ([], st1)) = (e2, st2)" by force
  have i1: "loop_invariant (evs @ e1) st1" using handleContent_invariant [OF assms(1) h1] .
  have i2: "loop_invariant ((evs @ e1) @ e2) st2"
    using h2 i1 handleToolCalls_invariant [OF i1, of "delta_ToolCalls choice" e2 st2]
    by (auto split: if_splits)
  from assms(2) h1 h2 have "e = e1 @ e2"
    and "st' = (if usage_CompletionTokens chunk > 0
                 then st2\<lparr>outputTokens := usage_CompletionTokens chunk\<rparr> else st2)"
    by (auto simp: handleChoice_def Let_def)
  with i2 show ?thesis by (auto simp: invariant_outputTokens)
qed

lemma chunkEvents_invariant:
  "loop_invariant evs st \<Longrightarrow> chunkEvents st chunk = (e, st') \<Longrightarrow>
   loop_invariant (evs @ e) st'"
  by (auto simp: chunkEvents_def usageOnly_def invariant_outputTokens handleChoice_invariant
      split: list.splits if_splits)

lemma runChunks_invariant:
  "loop_invariant evs st \<Longrightarrow> runChunks st chunks = (e, st') \<Longrightarrow>
   loop_invariant (evs @ e) st'"
proof (induction chunks arbitrary: evs st e st')
  case Nil
  then show ?case by simp
next
  case (Cons c cs)
  obtain e1 st1 where h1: "chunkEvents st c = (e1, st1)" by force
  obtain e2 st2 where h2: "runChunks st1 cs = (e2, st2)" by force
  from Cons.prems(2) h1 h2 have eq: "e = e1 @ e2" "st' = st2" by auto
  from chunkEvents_invariant [OF Cons.prems(1) h1] have "loop_invariant (evs @ e1) st1" .
  from Cons.IH [OF this h2] show ?case by (simp add: eq)
qed

lemma invariant_initial: "loop_invariant [] initialState"
  by (simp add: loop_invariant_def initialState_def)

subsection \<open>The loop up to the chunk with the finish reason\<close>

lemma processChunk_no_finish:
  "\<not> carriesFinish c \<Longrightarrow> processChunk seed st c =
     (fst (chunkEvents st c), snd (chunkEvents st c), False)"
  by (auto simp: processChunk_def carriesFinish_def chunkEvents_def
      split: list.splits prod.splits)

lemma processChunk_finish:
  "carriesFinish c \<Longrightarrow> processChunk seed st c =
     (fst (chunkEvents st c) @ finishEvents seed (snd (chunkEvents st c)) (finishReasonOf c),
      snd (chunkEvents st c), True)"
  by (auto simp: processChunk_def carriesFinish_def finishReasonOf_def chunkEvents_def
      split: list.splits prod.splits)

lemma streamLoop_finish:
  assumes "list_all (\<lambda>c. \<not> carriesFinish c) pre" "carriesFinish c"
  shows "streamLoop seed st (pre @ c # post) =
     (fst (runChunks st (pre @ [c]))
        @ finishEvents seed (snd (runChunks st (pre @ [c]))) (finishReasonOf c), post, True)"
  using assms
proof (induction pre arbitrary: st)
  case Nil
  then show ?case
    by (simp add: processChunk_finish split: prod.splits)
next
  case (Cons a pre)
  then show ?case
    by (simp add: processChunk_no_finish split: prod.splits)
qed

lemma chunkEvents_tokens:
  "outputTokens (snd (chunkEvents st c)) = usageAfter (outputTokens st) c"
proof (cases "Choices c")
  case Nil
  then show ?thesis by (simp add: chunkEvents_def usageOnly_def usageAfter_def)
next
  case (Cons choice others)
  have a: "outputTokens (snd (handleContent st x)) = outputTokens st" for st x
    by (simp add: handleContent_def)
  have b: "outputTokens (snd (handleToolCall st x)) = outputTokens st" for st x
    by (simp add: handleToolCall_def Let_def)
  have c: "outputTokens (snd (handleToolCalls st xs)) = outputTokens st" for st xs
  proof (induction xs arbitrary: st)
    case Nil
    then show ?case by simp
  next
    case (Cons x xs)
    show ?case using Cons.IH [of "snd (handleToolCall st x)"] b [of st x]
      by (auto split: prod.splits)
  qed
  show ?thesis
    using a [of st "delta_Content choice"]
      c [of "snd (handleContent st (delta_Content choice))" "delta_ToolCalls choice"]
    by (auto simp: chunkEvents_def Cons handleChoice_def usageAfter_def Let_def
        split: prod.splits)
qed

lemma runChunks_tokens:
  "outputTokens (snd (runChunks st cs)) = foldl usageAfter (outputTokens st) cs"
proof (induction cs arbitrary: st)
  case Nil
  then show ?case by simp
next
  case (Cons c cs)
  show ?case
    using Cons.IH [of "snd (chunkEvents st c)"] chunkEvents_tokens [of st c]
    by (auto split: prod.splits)
qed

subsection \<open>The visit of the map\<close>

lemma rangeKeys_mset: "mset (rangeKeys seed ks) = mset ks"
proof (induction seed ks rule: rangeKeys.induct)
  case (1 seed)
  then show ?case by simp
next
  case (2 k ks)
  then show ?case by simp
next
  case (3 n seed k ks)
  let ?key = "(k # ks) ! (n mod length (k # ks))"
  have "?key \<in> set (k # ks)"
    by (rule nth_mem) simp
  then have whole: "add_mset ?key (mset (remove1 ?key (k # ks))) = mset (k # ks)"
    by (simp only: mset_remove1 insert_DiffM set_mset_mset)
  have ih: "mset (rangeKeys seed (remove1 ?key (k # ks))) = mset (remove1 ?key (k # ks))"
    using "3.IH" [of ?key] by simp
  have "rangeKeys (n # seed) (k # ks) = ?key # rangeKeys seed (remove1 ?key (k # ks))"
    by (simp add: Let_def del: remove1.simps)
  then have "mset (rangeKeys (n # seed) (k # ks)) =
      add_mset ?key (mset (remove1 ?key (k # ks)))"
    using ih by (simp only: mset.simps)
  with whole show ?case by (simp only:)
qed

lemma rangeKeys_complete: "mset ps = mset ks \<Longrightarrow> \<exists>seed. rangeKeys seed ks = ps"
proof (induction ps arbitrary: ks)
  case Nil
  then show ?case by simp
next
  case (Cons p ps)
  then have mem: "p \<in> set ks"
    by (metis list.set_intros(1) set_mset_mset)
  then obtain i where i: "i < length ks" "ks ! i = p"
    by (auto simp: in_set_conv_nth)
  from Cons.prems mem have "mset ps = mset (remove1 p ks)"
    by (metis add_mset_remove_trivial mset.simps(2) mset_remove1)
  from Cons.IH [OF this] obtain seed where seed: "rangeKeys seed (remove1 p ks) = ps" ..
  from mem obtain k ks' where ks: "ks = k # ks'"
    by (cases ks) auto
  have "rangeKeys (i # seed) ks = p # ps"
    using i seed unfolding ks by (simp add: Let_def del: remove1.simps)
  then show ?case ..
qed

lemma rangeKeys_single: "rangeKeys seed [k] = [k]"
  by (cases seed) auto

subsection \<open>What the handler writes at the finish reason\<close>

text \<open>
  At the first chunk that carries a finish reason the handler has written the starts and
  deltas of the chunks so far. It then writes a stop with index 0 if a text delta was
  sent, a stop for every tool-use block it has opened (each opened once, each stopped
  once, in the order of the visit of the map), one \<open>message_delta\<close> with the mapped
  stop reason and the output tokens last reported, and one \<open>message_stop\<close>; it reads no
  further chunk.
\<close>

lemma finish_reason_closes_stream:
  assumes "list_all (\<lambda>c. \<not> carriesFinish c) pre" and "carriesFinish c"
  shows "HandleOpenAIToAnthropicStreamResponse seed True model (pre @ c # post) err =
      Inr (MessageStart model # contentEvents (pre @ [c])
             @ (if textSent (contentEvents (pre @ [c])) then [ContentBlockStop 0] else [])
             @ map ContentBlockStop (rangeKeys seed (toolStarts (contentEvents (pre @ [c]))))
             @ [MessageDelta (stopReasonOf (finishReasonOf c)) (lastOutputTokens (pre @ [c])),
                MessageStop],
           post)
     \<and> list_all startOrDelta (contentEvents (pre @ [c]))
     \<and> distinct (toolStarts (contentEvents (pre @ [c])))
     \<and> mset (rangeKeys seed (toolStarts (contentEvents (pre @ [c])))) =
         mset (toolStarts (contentEvents (pre @ [c])))"
proof -
  obtain body st' where run: "runChunks initialState (pre @ [c]) = (body, st')" by force
  have i: "loop_invariant body st'"
    using runChunks_invariant [OF invariant_initial run] by simp
  have tok: "outputTokens st' = lastOutputTokens (pre @ [c])"
    using runChunks_tokens [of initialState "pre @ [c]"] run
    by (simp add: lastOutputTokens_def initialState_def)
  have body: "contentEvents (pre @ [c]) = body"
    by (simp add: contentEvents_def run)
  have fin: "finishEvents seed st' (finishReasonOf c) =
      (if textSent body then [ContentBlockStop 0] else [])
      @ map ContentBlockStop (rangeKeys seed (toolStarts body))
      @ [MessageDelta (stopReasonOf (finishReasonOf c)) (lastOutputTokens (pre @ [c])),
         MessageStop]"
    using i tok by (simp add: finishEvents_def loop_invariant_def)
  have "streamLoop seed initialState (pre @ c # post) =
      (body @ finishEvents seed st' (finishReasonOf c), post, True)"
    using streamLoop_finish [OF assms, of seed initialState post] run by simp
  then show ?thesis
    using i
    by (simp add: HandleOpenAIToAnthropicStreamResponse_def body fin loop_invariant_def
        rangeKeys_mset)
qed

text \<open>
  With two tool-use blocks opened at 0 and then at 1, a visit of the map that starts at
  the second key stops block 1 before block 0.
\<close>

lemma stops_follow_the_visit:
  "HandleOpenAIToAnthropicStreamResponse [1] True ''m''
        [chunk_tool 0, chunk_tool 1, chunk_stop] None = Inr (events_two_tools, [])
   \<and> startIndices events_two_tools = [0, 1]
   \<and> stopIndices events_two_tools = [1, 0]"
  by (simp add: stream_defs chunk_defs events_two_tools_def Let_def)

text \<open>
  C2 fails on the code: when a text delta arrives after a tool call, the handler opens
  no text block (it sends the delta at index 1 without a start), and at the finish reason
  it writes two stops for index 0, one for the text and one for the tool call, whatever
  the order of the visit of the map. One block was opened and two stops are written, none
  for the index of the text delta.
\<close>

theorem text_after_tool_call_stops_twice:
  "HandleOpenAIToAnthropicStreamResponse seed True ''m''
        [chunk_tool 0, chunk_text, chunk_stop] None = Inr (events_text_after_tool, [])
   \<and> startIndices events_text_after_tool = [0]
   \<and> stopIndices events_text_after_tool = [0, 0]"
  by (simp add: stream_defs chunk_defs events_text_after_tool_def rangeKeys_single)

section \<open>Properties of the protocol adapter\<close>

text \<open>
  C3 fails on the code: for a request with a system message and a user message, the
  converted request has an empty \<open>system\<close> field. The loop collects the system text in
  \<open>systemParts\<close>, and the result is built without it.
\<close>

theorem system_messages_dropped:
  "ConvertOpenAIToAnthropicRequest no_json request_with_system =
     Inr \<lparr>params_Model = ''gpt-4'',
          params_Messages = [NewUserMessage [NewTextBlock ''hi'']],
          params_MaxTokens = 1024,
          params_System = []\<rparr>"
  by (simp add: ConvertOpenAIToAnthropicRequest_def convertMessage_def request_with_system_def
      Let_def)

text \<open>The same for every request: the \<open>system\<close> field of a converted request is empty.\<close>

lemma system_always_empty:
  "ConvertOpenAIToAnthropicRequest unmarshal req = Inr params \<Longrightarrow> params_System params = []"
  by (auto simp: ConvertOpenAIToAnthropicRequest_def split: sum.splits)

text \<open>The other half of C3 holds: no converted message has the role \<open>system\<close>.\<close>

lemma convertMessage_roles:
  assumes "convertMessage unmarshal (messages, parts) msg = Inr (messages', parts')"
    and "\<forall>m \<in> set messages. message_role m \<noteq> ''system''"
  shows "\<forall>m \<in> set messages'. message_role m \<noteq> ''system''"
  using assms
  by (auto simp: convertMessage_def Let_def split: option.splits if_splits sum.splits)

lemma convertMessages_roles:
  "convertMessages unmarshal (messages, parts) msgs = Inr (messages', parts') \<Longrightarrow>
   \<forall>m \<in> set messages. message_role m \<noteq> ''system'' \<Longrightarrow>
   \<forall>m \<in> set messages'. message_role m \<noteq> ''system''"
proof (induction msgs arbitrary: messages parts)
  case Nil
  then show ?case by simp
next
  case (Cons msg msgs)
  from Cons.prems(1) obtain st1
    where s1: "convertMessage unmarshal (messages, parts) msg = Inr st1"
      and s2: "convertMessages unmarshal st1 msgs = Inr (messages', parts')"
    by (auto split: sum.splits)
  obtain m1 p1 where st1: "st1 = (m1, p1)" by force
  from convertMessage_roles [OF s1 [unfolded st1] Cons.prems(2)]
  have "\<forall>m \<in> set m1. message_role m \<noteq> ''system''" .
  from Cons.IH [OF s2 [unfolded st1] this] show ?case .
qed

lemma no_system_role_in_messages:
  assumes "ConvertOpenAIToAnthropicRequest unmarshal req = Inr params"
  shows "\<forall>m \<in> set (params_Messages params). message_role m \<noteq> ''system''"
proof -
  from assms obtain st
    where st: "convertMessages unmarshal ([], []) (req_Messages req) = Inr st"
      and p: "params_Messages params = fst st"
    by (auto simp: ConvertOpenAIToAnthropicRequest_def split: sum.splits)
  obtain ms ps where "st = (ms, ps)" by force
  with st p convertMessages_roles [of unmarshal "[]" "[]" "req_Messages req" ms ps]
  show ?thesis by simp
qed

text \<open>
  C4 fails on the code: \<open>ConvertOpenAIToAnthropic\<close> maps the finish reasons \<open>length\<close> and
  \<open>content_filter\<close> to \<open>end_turn\<close>, where the mapping of the beta stream translator gives
  \<open>max_tokens\<close> and \<open>refusal\<close>.
\<close>

theorem length_maps_to_end_turn:
  "msg_stop_reason (ConvertOpenAIToAnthropic no_json ''msg_1'' response_length ''gpt-4'')
     = ''end_turn''
   \<and> msg_stop_reason (ConvertOpenAIToAnthropic no_json ''msg_1'' response_filtered ''gpt-4'')
     = ''end_turn''
   \<and> mapOpenAIFinishReasonToAnthropicBeta ''length'' = ''max_tokens''
   \<and> mapOpenAIFinishReasonToAnthropicBeta ''content_filter'' = ''refusal''"
  by (simp add: ConvertOpenAIToAnthropic_def response_length_def response_filtered_def Let_def
      mapOpenAIFinishReasonToAnthropicBeta_def openaiFinishReasonToolCalls_def)

text \<open>The two mappings, for every finish reason.\<close>

lemma nonstreaming_stop_reason:
  "msg_stop_reason (ConvertOpenAIToAnthropic unmarshal i resp model) =
     (case resp_Choices resp of
        [] \<Rightarrow> ''end_turn''
      | choice # others \<Rightarrow>
          if choice_ToolCalls choice \<noteq> [] \<and> choice_FinishReason choice = ''tool_calls''
          then ''tool_use'' else ''end_turn'')"
  by (simp add: ConvertOpenAIToAnthropic_def Let_def split: list.splits)

lemma beta_mapping:
  "mapOpenAIFinishReasonToAnthropicBeta r =
     (if r = ''tool_calls'' then ''tool_use''
      else if r = ''length'' then ''max_tokens''
      else if r = ''content_filter'' then ''refusal''
      else ''end_turn'')"
  by (simp add: mapOpenAIFinishReasonToAnthropicBeta_def openaiFinishReasonToolCalls_def)

section \<open>Properties of the count-tokens endpoint\<close>

text \<open>
  The choice of the path. For a body that binds: when the provider's API style is
  \<open>anthropic\<close>, the request (with the selected service's model) goes to the upstream
  count and its answer is returned, an upstream error as an error; for any other style,
  the empty one included, the answer is what the local counter returns.
\<close>

lemma count_tokens_dispatch:
  "anthropicCountTokensBeta upstream localCount (Some req) provider selectedService =
     (if prov_APIStyle provider = ''anthropic'' then
        (case upstream (req\<lparr>ct_Model := Model selectedService\<rparr>) of
           Inl err \<Rightarrow> InvalidRequestBodyError
         | Inr message \<Rightarrow> StatusOK_Message message)
      else
        (case localCount (Model selectedService) (ct_Messages req) (ct_System req) of
           Inl err \<Rightarrow> InvalidRequestBodyError
         | Inr tokens \<Rightarrow> StatusOK_Count tokens))"
  by (auto simp: anthropicCountTokensBeta_def Let_def)

section \<open>Properties of the encrypted configuration file\<close>

subsection \<open>Strings and numbers through the document\<close>

text \<open>
  A valid string is written as it is, and ASCII strings are valid; the decimal text of an
  integer is read back as that integer when it is a 64-bit one.
\<close>

lemma coerce_valid: "valid_utf8 s \<Longrightarrow> coerce s = s"
proof (induction s rule: coerce.induct)
  case 1
  then show ?case by simp
next
  case (2 b bs)
  then show ?case
    by (simp split: if_splits)
qed

lemma ascii_valid: "list_all (\<lambda>c. (of_char c :: nat) < 128) s \<Longrightarrow> valid_utf8 s"
  by (induction s) (auto simp: runeLen_def Let_def)

lemma digits_value_snoc:
  "digits_value acc (xs @ [c]) = digits_value acc xs * 10 + digit_val c"
  by (induction xs arbitrary: acc) simp_all

lemma digit_val_char: "d < (10::nat) \<Longrightarrow> digit_val (char_of (48 + d)) = int d"
  by (simp add: digit_val_def)

lemma is_digit_char: "d < (10::nat) \<Longrightarrow> is_digit (char_of (48 + d))"
  by (simp add: is_digit_def)

lemma natDigits_value: "digits_value 0 (natDigits n) = int n"
proof (induction n rule: natDigits.induct)
  case (1 n)
  show ?case
  proof (cases "n < 10")
    case True
    then show ?thesis
      by (subst natDigits.simps) (simp add: digit_val_char)
  next
    case False
    have "digits_value 0 (natDigits n) =
            digits_value 0 (natDigits (n div 10)) * 10 + digit_val (char_of (48 + n mod 10))"
      using False by (subst natDigits.simps) (simp add: digits_value_snoc)
    also have "\<dots> = int (n div 10) * 10 + int (n mod 10)"
      using 1 False by (simp add: digit_val_char)
    also have "\<dots> = int n"
      by presburger
    finally show ?thesis .
  qed
qed

lemma natDigits_digits: "list_all is_digit (natDigits n)"
proof (induction n rule: natDigits.induct)
  case (1 n)
  show ?case
  proof (cases "n < 10")
    case True
    then show ?thesis
      by (subst natDigits.simps) (simp add: is_digit_char)
  next
    case False
    then show ?thesis
      using 1 by (subst natDigits.simps) (simp add: is_digit_char)
  qed
qed

lemma natDigits_nonempty: "natDigits n \<noteq> []"
  by (subst natDigits.simps) simp

lemma parse_natDigits: "parse_digits (natDigits n) = Some (int n)"
  by (simp add: parse_digits_def natDigits_nonempty natDigits_digits natDigits_value)

lemma is_digit_not_sign: "is_digit c \<Longrightarrow> c \<noteq> CHR ''-'' \<and> c \<noteq> CHR ''+''"
  by (auto simp: is_digit_def)

lemma Atoi_FormatInt: "Atoi (FormatInt n) = in_int64 n"
proof (cases "n < 0")
  case True
  then show ?thesis
    by (simp add: Atoi_def FormatInt_def parse_natDigits)
next
  case False
  obtain c cs where ds: "natDigits (nat n) = c # cs"
    using natDigits_nonempty [of "nat n"] by (cases "natDigits (nat n)") auto
  have "is_digit c"
    using natDigits_digits [of "nat n"] ds by simp
  then have "c \<noteq> CHR ''-''" "c \<noteq> CHR ''+''"
    using is_digit_not_sign by auto
  moreover have "parse_digits (c # cs) = Some n"
    using parse_natDigits [of "nat n"] ds False by simp
  ultimately show ?thesis
    using False ds by (simp add: Atoi_def FormatInt_def)
qed

subsection \<open>A configuration through its document\<close>

text \<open>
  Reading the document of a configuration gives the configuration back, when its strings
  are valid UTF-8: every tagged field is written and read under the same name.
\<close>

lemma unmarshalProvider_document:
  "valid_provider p \<Longrightarrow> unmarshalProvider (providerDocument p) = Some p"
  by (cases p)
     (simp_all add: valid_provider_def unmarshalProvider_def providerDocument_def
        providerMember_def unmarshalString_def unmarshalBool_def zeroProvider_def
        lower_char_def coerce_valid)

lemma providers_members:
  "\<forall>k \<in> set ks. valid_utf8 k \<and> valid_provider (the (m k)) \<Longrightarrow>
   members providersMember m0 (map (\<lambda>k. (coerce k, providerDocument (the (m k)))) ks) =
     Some (fold (\<lambda>k acc. acc(k \<mapsto> the (m k))) ks m0)"
  by (induction ks arbitrary: m0)
     (simp_all add: providersMember_def unmarshalProvider_document coerce_valid)

lemma fold_bindings:
  "set ks \<subseteq> dom m \<Longrightarrow>
   fold (\<lambda>k acc. acc(k \<mapsto> the (m k))) ks m0 = (\<lambda>k. if k \<in> set ks then m k else m0 k)"
proof (induction ks arbitrary: m0)
  case Nil
  then show ?case by simp
next
  case (Cons a ks)
  then obtain v where "m a = Some v"
    by auto
  then show ?case
    using Cons by (auto simp: fun_eq_iff)
qed

lemma unmarshalProviders_document:
  assumes "finite (dom m)"
    and "\<forall>k \<in> dom m. valid_utf8 k \<and> valid_provider (the (m k))"
  shows "unmarshalProviders (providersDocument (Some m)) None = Some (Some m)"
proof -
  let ?ks = "sorted_list_of_set (dom m)"
  have keys: "set ?ks = dom m"
    using assms(1) by simp
  have "members providersMember Map.empty
          (map (\<lambda>k. (coerce k, providerDocument (the (m k)))) ?ks) =
        Some (fold (\<lambda>k acc. acc(k \<mapsto> the (m k))) ?ks Map.empty)"
    using assms(2) keys by (intro providers_members) simp
  moreover have "fold (\<lambda>k acc. acc(k \<mapsto> the (m k))) ?ks Map.empty = m"
    using keys by (subst fold_bindings) (auto simp: fun_eq_iff)
  ultimately show ?thesis
    by (simp add: unmarshalProviders_def providersDocument_def)
qed

lemma unmarshalConfig_document:
  assumes "go_config c" and "valid_config c"
  shows "unmarshalConfig (configDocument c) = Some c"
proof -
  have providers: "unmarshalProviders (providersDocument (Providers c)) None = Some (Providers c)"
  proof (cases "Providers c")
    case None
    then show ?thesis
      by (simp add: unmarshalProviders_def providersDocument_def)
  next
    case (Some m)
    then show ?thesis
      using assms unmarshalProviders_document [of m]
      by (simp add: go_config_def valid_config_def)
  qed
  have port: "unmarshalInt (JNumber (FormatInt (ServerPort c))) 0 = Some (ServerPort c)"
    using assms(1) by (simp add: unmarshalInt_def Atoi_FormatInt go_config_def)
  have secret: "unmarshalString (JString (coerce (JWTSecret c))) [] = Some (JWTSecret c)"
    using assms(2) by (simp add: unmarshalString_def coerce_valid valid_config_def)
  show ?thesis
    by (simp add: unmarshalConfig_def configDocument_def configMember_def zeroConfig_def
        lower_char_def providers port secret)
qed

subsection \<open>The examples\<close>

lemma natDigits_8080: "natDigits 8080 = ''8080''"
  by (simp add: natDigits.simps char_of_eq_iff)

lemma document_one: "configDocument config_one = document_of_token ''sk-1''"
  by (simp add: configDocument_def config_one_def providersDocument_def providerDocument_def
      provider_one_def document_of_token_def FormatInt_def natDigits_8080 runeLen_def)

lemma document_bad: "configDocument config_bad = document_of_token replacement"
  by (simp add: configDocument_def config_bad_def providersDocument_def providerDocument_def
      provider_one_def document_of_token_def FormatInt_def natDigits_8080 runeLen_def)

lemma unmarshal_replaced: "unmarshalConfig (document_of_token replacement) = Some config_replaced"
  by (simp add: document_of_token_def unmarshalConfig_def configMember_def
      unmarshalProviders_def providersMember_def unmarshalProvider_def providerMember_def
      unmarshalString_def unmarshalBool_def unmarshalInt_def zeroConfig_def zeroProvider_def
      lower_char_def Atoi_def parse_digits_def is_digit_def digit_val_def in_int64_def
      config_replaced_def provider_one_def)

lemma add_provider_bad:
  "AddProvider toy_library True ''openai'' ''https://api.openai.com/v1'' [CHR 0xFF] app_new
     Map.empty =
   (None, app_bad, [''config.enc'' \<mapsto> ''0123456789abdab0123456789ab''])"
proof -
  have provider: "\<lparr>cfg_Name = ''openai'', cfg_APIBase = ''https://api.openai.com/v1'',
      cfg_Token = [CHR 0xFF], cfg_Enabled = True\<rparr> = provider_one\<lparr>cfg_Token := [CHR 0xFF]\<rparr>"
    by (simp add: provider_one_def)
  have state: "app_new\<lparr>config := config_new\<lparr>Providers :=
      Some [''openai'' \<mapsto> Some (provider_one\<lparr>cfg_Token := [CHR 0xFF]\<rparr>)]\<rparr>\<rparr> = app_bad"
    by (simp add: app_new_def app_bad_def config_new_def config_bad_def)
  have saved: "Save toy_library True app_bad Map.empty =
      (None, [''config.enc'' \<mapsto> ''0123456789abdab0123456789ab''])"
    by (simp add: Save_def json_Marshal_def app_bad_def document_bad toy_library_def
        toy_gcm_def document_of_token_def replacement_def)
  have "Providers (config app_new) = Some Map.empty" "config app_new = config_new"
    by (simp_all add: app_new_def config_new_def)
  then show ?thesis
    by (simp add: AddProvider_def Let_def provider state saved)
qed

subsection \<open>Load after Save\<close>

text \<open>
  C8, amended. Take a configuration (a Go value: a 64-bit port, a map of finitely many
  keys) whose strings are all valid UTF-8, and let the libraries keep their contracts:
  the reader reads back the document the writer wrote, whatever type it came from; the
  cipher opens what it sealed under the same nonce; the base-64 decoder inverts the
  encoder. Then for every nonce of the cipher's nonce size that the random source yields,
  \<open>Save\<close> writes the file and \<open>Load\<close> of that file, into an \<open>AppConfig\<close> that held any
  other configuration, yields the configuration saved.
\<close>

theorem load_after_save:
  assumes "go_config (config ac)"
    and "valid_config (config ac)"
    and "json_write lib (configDocument (config ac)) = Some data"
    and "json_read lib data = Some (configDocument (config ac))"
    and "rand_Read lib (NonceSize (gcm ac)) = Some nonce"
    and "length nonce = NonceSize (gcm ac)"
    and "Open (gcm ac) nonce (Seal (gcm ac) nonce data) = Some data"
    and "DecodeString lib (EncodeToString lib (nonce @ Seal (gcm ac) nonce data)) =
           Some (nonce @ Seal (gcm ac) nonce data)"
  shows "Save lib True ac fs =
           (None, fs(configFile ac \<mapsto> EncodeToString lib (nonce @ Seal (gcm ac) nonce data)))
     \<and> Load lib (ac\<lparr>config := other\<rparr>)
           (fs(configFile ac \<mapsto> EncodeToString lib (nonce @ Seal (gcm ac) nonce data))) =
         Inr ac"
  using assms unmarshalConfig_document [of "config ac"]
  by (simp add: Save_def Load_def Let_def json_Marshal_def json_Unmarshal_def)

theorem load_after_save_witness:
  "Save toy_library True app_one Map.empty =
      (None, [''config.enc'' \<mapsto> ''0123456789abeno0123456789ab''])
   \<and> Load toy_library (app_one\<lparr>config := zeroConfig\<rparr>)
        [''config.enc'' \<mapsto> ''0123456789abeno0123456789ab''] = Inr app_one"
proof -
  have state: "go_config (config app_one)"
    by (simp add: app_one_def config_one_def go_config_def in_int64_def)
  have strings: "valid_config (config app_one)"
    by (simp add: app_one_def config_one_def provider_one_def valid_config_def
        valid_provider_def runeLen_def)
  have written: "json_write toy_library (configDocument (config app_one)) = Some ''one''"
    by (simp add: app_one_def document_one toy_library_def)
  have read: "json_read toy_library ''one'' = Some (configDocument (config app_one))"
    by (simp add: app_one_def document_one toy_library_def)
  show ?thesis
    using load_after_save [where lib = toy_library and ac = app_one and data = "''one''"
        and nonce = "''0123456789ab''" and fs = Map.empty and other = zeroConfig,
        OF state strings written read]
    by (simp add: toy_library_def app_one_def toy_gcm_def)
qed

text \<open>
  C8 as stated fails: \<open>AddProvider\<close> with a token that is the single byte \<open>0xFF\<close> (the
  command line passes its arguments as they are) saves a configuration that \<open>Load\<close>
  does not give back: the token read is U+FFFD. The libraries are those of the
  example above.
\<close>

theorem invalid_utf8_token_not_restored:
  "AddProvider toy_library True ''openai'' ''https://api.openai.com/v1'' [CHR 0xFF] app_new
     Map.empty =
     (None, app_bad, [''config.enc'' \<mapsto> ''0123456789abdab0123456789ab''])
   \<and> Load toy_library app_bad [''config.enc'' \<mapsto> ''0123456789abdab0123456789ab''] =
      Inr (app_bad\<lparr>config := config_replaced\<rparr>)
   \<and> config_replaced \<noteq> config app_bad"
proof -
  have loaded: "Load toy_library app_bad [''config.enc'' \<mapsto> ''0123456789abdab0123456789ab''] =
      Inr (app_bad\<lparr>config := config_replaced\<rparr>)"
    by (simp add: Load_def json_Unmarshal_def unmarshal_replaced toy_library_def app_bad_def
        toy_gcm_def)
  have "the (Providers config_replaced) ''openai'' \<noteq> the (Providers config_bad) ''openai''"
    by (simp add: config_bad_def config_replaced_def replacement_def provider_one_def)
  then have "config_replaced \<noteq> config_bad"
    by auto
  then have differ: "config_replaced \<noteq> config app_bad"
    by (simp add: app_bad_def)
  show ?thesis
    using add_provider_bad loaded differ by (simp only: simp_thms)
qed

end
